theory Spec2Isabelle
  imports Complex_Main
begin

section \<open>Polymarket LP rewards bot: a shallow embedding of \<^verbatim>\<open>src/bot.py\<close>\<close>

text \<open>
  Conventions of the embedding.

  \<^item> A Python \<^verbatim>\<open>float\<close> is modelled as the \<^typ>\<open>real\<close> number it holds; overflow, infinities
    and NaN are outside the model. Arithmetic is exact, with one exception: the sums that
    are passed to \<^verbatim>\<open>round(x, 3)\<close> are sums of doubles, each \<^verbatim>\<open>+\<close> and \<^verbatim>\<open>-\<close> of them followed by
    the rounding of the IEEE 754 binary64 format (\<open>binary64\<close> below). Rounding to a price
    tick is not continuous, so there an error of one unit in the last place of a sum can
    move the result by a whole tick. A price on the tick grid is written as its decimal,
    \<open>k / 1000\<close>, which stands for the double closest to it.
  \<^item> A decimal literal of the source is its decimal value; \<open>binary64 d\<close> is the double that
    the literal \<open>d\<close> denotes.
  \<^item> A raw market record is a decoded JSON value (\<open>json\<close>); a JSON object is an
    association list looked up with \<^const>\<open>map_of\<close>.
  \<^item> An exception raised by the source is the \<open>Inl\<close> branch of a sum type.
  \<^item> Library routines the source calls but does not define (parsing a string as a float,
    \<^verbatim>\<open>json.loads\<close>, ISO date arithmetic against the clock, the order client, the HTTP
    midpoint fetch) are parameters of the model; the theorems hold for every behaviour
    of them.
\<close>

subsection \<open>Python values\<close>

datatype json =
    JNull
  | JBool bool
  | JInt int
  | JFloat real
  | JStr string
  | JList "json list"
  | JDict "(string \<times> json) list"

datatype py_error =
  TypeError | ValueError | KeyError | IndexError | AttributeError | ExternalError

text \<open>Sequencing of computations that may raise.\<close>

definition bind_err :: "'e + 'a \<Rightarrow> ('a \<Rightarrow> 'e + 'b) \<Rightarrow> 'e + 'b" where
  "bind_err m f = (case m of Inl e \<Rightarrow> Inl e | Inr x \<Rightarrow> f x)"

text \<open>Truthiness, as \<^verbatim>\<open>not x\<close>, \<^verbatim>\<open>x or y\<close> and \<^verbatim>\<open>if x\<close> test it.\<close>

fun py_truthy :: "json \<Rightarrow> bool" where
  "py_truthy JNull = False"
| "py_truthy (JBool b) = b"
| "py_truthy (JInt i) = (i \<noteq> 0)"
| "py_truthy (JFloat r) = (r \<noteq> 0)"
| "py_truthy (JStr s) = (s \<noteq> [])"
| "py_truthy (JList xs) = (xs \<noteq> [])"
| "py_truthy (JDict kvs) = (kvs \<noteq> [])"

definition py_or :: "json \<Rightarrow> json \<Rightarrow> json" where
  "py_or a b = (if py_truthy a then a else b)"

text \<open>\<^verbatim>\<open>d.get(k, default)\<close> and \<^verbatim>\<open>d.get(k)\<close> on a dictionary.\<close>

definition dict_get :: "(string \<times> json) list \<Rightarrow> string \<Rightarrow> json \<Rightarrow> json" where
  "dict_get d k dflt = (case map_of d k of None \<Rightarrow> dflt | Some v \<Rightarrow> v)"

definition dict_get_none :: "(string \<times> json) list \<Rightarrow> string \<Rightarrow> json" where
  "dict_get_none d k = dict_get d k JNull"

text \<open>
  \<^verbatim>\<open>float(v)\<close>. The parser for strings is the parameter \<open>sf\<close>
  (\<open>None\<close> where Python raises \<^verbatim>\<open>ValueError\<close>).
\<close>

fun py_float :: "(string \<Rightarrow> real option) \<Rightarrow> json \<Rightarrow> py_error + real" where
  "py_float sf (JBool b) = Inr (if b then 1 else 0)"
| "py_float sf (JInt i) = Inr (of_int i)"
| "py_float sf (JFloat r) = Inr r"
| "py_float sf (JStr s) = (case sf s of None \<Rightarrow> Inl ValueError | Some r \<Rightarrow> Inr r)"
| "py_float sf JNull = Inl TypeError"
| "py_float sf (JList xs) = Inl TypeError"
| "py_float sf (JDict kvs) = Inl TypeError"

fun py_len :: "json \<Rightarrow> py_error + nat" where
  "py_len (JStr s) = Inr (length s)"
| "py_len (JList xs) = Inr (length xs)"
| "py_len (JDict kvs) = Inr (length kvs)"
| "py_len JNull = Inl TypeError"
| "py_len (JBool b) = Inl TypeError"
| "py_len (JInt i) = Inl TypeError"
| "py_len (JFloat r) = Inl TypeError"

text \<open>
  \<^verbatim>\<open>v[i]\<close> for a literal index \<open>i \<ge> 0\<close>. A character of a string is a string of length
  one; the keys of a decoded JSON object are strings, so an integer subscript on it is a
  \<^verbatim>\<open>KeyError\<close>.
\<close>

fun py_index :: "json \<Rightarrow> nat \<Rightarrow> py_error + json" where
  "py_index (JStr s) i = (if i < length s then Inr (JStr [s ! i]) else Inl IndexError)"
| "py_index (JList xs) i = (if i < length xs then Inr (xs ! i) else Inl IndexError)"
| "py_index (JDict kvs) i = Inl KeyError"
| "py_index JNull i = Inl TypeError"
| "py_index (JBool b) i = Inl TypeError"
| "py_index (JInt n) i = Inl TypeError"
| "py_index (JFloat r) i = Inl TypeError"

subsection \<open>Configuration and data classes\<close>

text \<open>The module-level tunables read from the environment at start-up.\<close>

record config =
  DEFAULT_SIZE_PER_MARKET :: real
  MAX_MARKETS :: int
  MIN_DAYS_TO_RESOLUTION :: int
  MIN_DAILY_REWARD :: real
  MAX_COMPETITION_SCORE :: real
  FILL_ALERT_THRESHOLD :: real
  SPREAD_SAFETY_MARGIN :: real

definition default_config :: config where
  "default_config =
     \<lparr> DEFAULT_SIZE_PER_MARKET = 500, MAX_MARKETS = 10, MIN_DAYS_TO_RESOLUTION = 14,
       MIN_DAILY_REWARD = 1, MAX_COMPETITION_SCORE = 70, FILL_ALERT_THRESHOLD = 2 / 100,
       SPREAD_SAFETY_MARGIN = 5 / 1000 \<rparr>"

text \<open>
  \<^verbatim>\<open>RewardMarket\<close>. The identity fields hold whatever the raw record held, so they are
  \<open>json\<close> values.
\<close>

record RewardMarket =
  condition_id :: json
  question :: json
  slug :: json
  token_id_yes :: json
  token_id_no :: json
  end_date :: json
  days_to_resolution :: real
  daily_reward :: real
  max_spread :: real
  min_size :: real
  midpoint :: real
  best_bid :: real
  best_ask :: real
  spread :: real
  volume_24h :: real
  liquidity :: real
  competition_score :: real
  risk_score :: real
  reward_per_dollar :: real

datatype risk_level = LOW | CRITICAL | WARNING | WATCH | SAFE

text \<open>\<^verbatim>\<open>ActivePosition\<close>; the field \<^verbatim>\<open>size\<close> is named \<open>size_alloc\<close> here.\<close>

record ActivePosition =
  market :: RewardMarket
  order_id_yes :: "string option"
  order_id_no :: "string option"
  our_bid_price :: real
  our_ask_price :: real
  size_alloc :: real
  placed_at :: string
  fills_today :: int
  rewards_earned :: real
  pos_risk_level :: risk_level

subsection \<open>Ranker: the filter and sort of \<^verbatim>\<open>fetch_reward_markets\<close> (lines 190--210)\<close>

text \<open>
  \<^verbatim>\<open>list.sort(key=..., reverse=True)\<close> is a stable sort into non-ascending key order;
  it is modelled by the stable insertion sort of the library on the negated key.
\<close>

definition sort_key_reverse :: "('a \<Rightarrow> real) \<Rightarrow> 'a list \<Rightarrow> 'a list" where
  "sort_key_reverse k xs = sort_key (\<lambda>x. - k x) xs"

definition has_rewards :: "RewardMarket \<Rightarrow> bool" where
  "has_rewards m \<longleftrightarrow> daily_reward m > 0 \<and> max_spread m > 0"

text \<open>The three \<^verbatim>\<open>continue\<close> guards of the filter loop, in source order.\<close>

definition passes_filters :: "config \<Rightarrow> RewardMarket \<Rightarrow> bool" where
  "passes_filters cfg m =
     (if days_to_resolution m < of_int (MIN_DAYS_TO_RESOLUTION cfg) then False
      else if daily_reward m < MIN_DAILY_REWARD cfg then False
      else if competition_score m > MAX_COMPETITION_SCORE cfg then False
      else True)"

definition rank_reward_markets :: "config \<Rightarrow> RewardMarket list \<Rightarrow> RewardMarket list" where
  "rank_reward_markets cfg all_markets =
     (let reward_markets = filter has_rewards all_markets;
          filtered = filter (passes_filters cfg) reward_markets
      in sort_key_reverse reward_per_dollar filtered)"

subsection \<open>Normalizer and scorer: \<^verbatim>\<open>parse_market\<close>\<close>

text \<open>
  The library routines \<^verbatim>\<open>parse_market\<close> relies on. \<open>float_of_str s\<close> is \<^verbatim>\<open>float(s)\<close> on a
  string, \<open>json_loads s\<close> is \<^verbatim>\<open>json.loads(s)\<close>, and \<open>days_until s\<close> is
  \<^verbatim>\<open>(datetime.fromisoformat(s.replace("Z", "+00:00")) - now).total_seconds() / 86400\<close>;
  each is \<open>None\<close> where the Python expression raises.
\<close>

record py_lib =
  float_of_str :: "string \<Rightarrow> real option"
  json_loads :: "string \<Rightarrow> json option"
  days_until :: "string \<Rightarrow> real option"

text \<open>\<^verbatim>\<open>float(v or 0)\<close>.\<close>

definition float_or0 :: "py_lib \<Rightarrow> json \<Rightarrow> py_error + real" where
  "float_or0 lib v = py_float (float_of_str lib) (py_or v (JInt 0))"

text \<open>Lines 229--243: \<^verbatim>\<open>max_spread\<close> and \<^verbatim>\<open>min_size\<close> under three naming patterns.\<close>

definition parse_spread_size :: "py_lib \<Rightarrow> (string \<times> json) list \<Rightarrow> py_error + real \<times> real" where
  "parse_spread_size lib d =
     bind_err (float_or0 lib (dict_get d ''rewardsMaxSpread'' (JInt 0))) (\<lambda>ms1.
     bind_err (float_or0 lib (dict_get d ''rewardsMinSize'' (JInt 0))) (\<lambda>mz1.
     bind_err (if ms1 = 0 then float_or0 lib (dict_get d ''rewards_max_spread'' (JInt 0))
               else Inr ms1) (\<lambda>ms2.
     bind_err (if mz1 = 0 then float_or0 lib (dict_get d ''rewards_min_size'' (JInt 0))
               else Inr mz1) (\<lambda>mz2.
     bind_err (if ms2 = 0 then float_or0 lib (dict_get d ''max_incentive_spread'' (JInt 0))
               else Inr ms2) (\<lambda>ms3.
     bind_err (if mz2 = 0 then float_or0 lib (dict_get d ''min_incentive_size'' (JInt 0))
               else Inr mz2) (\<lambda>mz3.
     Inr (ms3, mz3)))))))"

text \<open>Lines 248--250: the loop over the nested \<^verbatim>\<open>rewards\<close> array, with its accumulator.\<close>

fun rewards_loop :: "py_lib \<Rightarrow> json list \<Rightarrow> real \<Rightarrow> py_error + real" where
  "rewards_loop lib [] rewards_daily = Inr rewards_daily"
| "rewards_loop lib (r # rs) rewards_daily =
     (case r of
        JDict rd \<Rightarrow>
          bind_err (py_float (float_of_str lib)
                      (py_or (py_or (py_or (dict_get rd ''rewardsDailyRate'' (JInt 0))
                                           (dict_get rd ''dailyRate'' (JInt 0)))
                                    (dict_get rd ''rewards_daily_rate'' (JInt 0)))
                             (JInt 0)))
            (\<lambda>x. rewards_loop lib rs (rewards_daily + x))
      | _ \<Rightarrow> rewards_loop lib rs rewards_daily)"

text \<open>Lines 246--256: the daily reward.\<close>

definition parse_rewards_daily :: "py_lib \<Rightarrow> (string \<times> json) list \<Rightarrow> py_error + real" where
  "parse_rewards_daily lib d =
     bind_err (case dict_get d ''rewards'' (JList []) of
                 JList rs \<Rightarrow> rewards_loop lib rs 0
               | _ \<Rightarrow> Inr 0) (\<lambda>rd1.
     bind_err (if rd1 = 0 then float_or0 lib (dict_get d ''rewardsDailyRate'' (JInt 0))
               else Inr rd1) (\<lambda>rd2.
     (if rd2 = 0 then float_or0 lib (dict_get d ''rewards_daily_rate'' (JInt 0))
      else Inr rd2)))"

text \<open>
  Lines 266--274: the end date and the days to resolution. A truthy end date that is
  not a string has no \<^verbatim>\<open>replace\<close> method; the inner bare \<^verbatim>\<open>except\<close> swallows that as it
  swallows a parse failure, and the default 365 stays.
\<close>

definition parse_end_date :: "(string \<times> json) list \<Rightarrow> (string \<times> json) list \<Rightarrow> json" where
  "parse_end_date d event =
     py_or (py_or (dict_get_none d ''endDate'') (dict_get_none event ''endDate''))
           (dict_get_none d ''end_date_iso'')"

definition parse_days :: "py_lib \<Rightarrow> json \<Rightarrow> real" where
  "parse_days lib ed =
     (if py_truthy ed then
        (case ed of
           JStr s \<Rightarrow> (case days_until lib s of Some x \<Rightarrow> max 0 x | None \<Rightarrow> 365)
         | _ \<Rightarrow> 365)
      else 365)"

text \<open>Lines 277--284: the outcome price list.\<close>

definition parse_prices :: "py_lib \<Rightarrow> (string \<times> json) list \<Rightarrow> json" where
  "parse_prices lib d =
     (let outcome_prices = dict_get d ''outcomePrices'' (JStr ''[]'')
      in case outcome_prices of
           JStr s \<Rightarrow> (case json_loads lib s of
                        Some v \<Rightarrow> v
                      | None \<Rightarrow> JList [JFloat (1 / 2), JFloat (1 / 2)])
         | _ \<Rightarrow> outcome_prices)"

text \<open>Lines 286--287: \<^verbatim>\<open>float(prices[i]) if len(prices) > i else 0.5\<close>.\<close>

definition price_at :: "py_lib \<Rightarrow> json \<Rightarrow> nat \<Rightarrow> py_error + real" where
  "price_at lib prices i =
     bind_err (py_len prices) (\<lambda>n.
       if n > i then bind_err (py_index prices i) (py_float (float_of_str lib))
       else Inr (1 / 2))"

text \<open>
  Lines 288 and 297--340: everything after the last conversion that can raise. The
  arguments \<open>bb0\<close> and \<open>ba0\<close> are the raw \<^verbatim>\<open>bestBid\<close> and \<^verbatim>\<open>bestAsk\<close>.
\<close>

definition build_market ::
  "(string \<times> json) list \<Rightarrow> json \<Rightarrow> json \<Rightarrow> json \<Rightarrow> real \<Rightarrow> real \<Rightarrow> real \<Rightarrow> real \<Rightarrow>
   real \<Rightarrow> real \<Rightarrow> real \<Rightarrow> real \<Rightarrow> real \<Rightarrow> real \<Rightarrow> RewardMarket" where
  "build_market d tyes tno ed days rewards_daily max_sp min_sz yes_price no_price
                volume liq bb0 ba0 =
     (let mid = yes_price;
          sp = (if bb0 > 0 \<and> ba0 > 0 then ba0 - bb0
                else if no_price \<noteq> 0 then \<bar>yes_price - (1 - no_price)\<bar> else 0);
          bb = (if bb0 > 0 \<and> ba0 > 0 then bb0 else yes_price - sp / 2);
          ba = (if bb0 > 0 \<and> ba0 > 0 then ba0 else yes_price + sp / 2);
          competition = (if rewards_daily > 0
                         then min 100 ((liq / (rewards_daily * 100)) * 10) else 100);
          time_risk = max 0 (50 - days) * 2;
          price_risk = (1 - \<bar>mid - 1 / 2\<bar> * 2) * 50;
          volume_risk = min 50 (volume / 1000 * 10);
          risk = min 100 ((time_risk + price_risk + volume_risk) / 3);
          capital_needed = (if min_sz > 0 then min_sz * 2 else 100);
          rpd = (if rewards_daily > 0 then rewards_daily / max capital_needed 1 else 0)
      in \<lparr> condition_id = dict_get d ''conditionId'' (dict_get d ''condition_id'' (JStr [])),
           question = dict_get d ''question'' (JStr ''Unknown''),
           slug = dict_get d ''slug'' (JStr []),
           token_id_yes = tyes,
           token_id_no = tno,
           end_date = ed,
           days_to_resolution = days,
           daily_reward = rewards_daily,
           max_spread = max_sp,
           min_size = min_sz,
           midpoint = mid,
           best_bid = bb,
           best_ask = ba,
           spread = sp,
           volume_24h = volume,
           liquidity = liq,
           competition_score = competition,
           risk_score = risk,
           reward_per_dollar = rpd \<rparr>)"

text \<open>
  The body of the \<^verbatim>\<open>try\<close> block: \<open>Inl e\<close> when it raises, \<open>Inr None\<close> for the explicit
  \<^verbatim>\<open>return None\<close>, \<open>Inr (Some m)\<close> for a market. A record that is not a dictionary has no
  \<^verbatim>\<open>get\<close>.
\<close>

definition parse_market_try ::
  "py_lib \<Rightarrow> json \<Rightarrow> (string \<times> json) list \<Rightarrow> py_error + RewardMarket option" where
  "parse_market_try lib raw event =
     (case raw of
        JDict d \<Rightarrow>
          (let clob_token_ids = dict_get_none d ''clobTokenIds'' in
           if \<not> py_truthy clob_token_ids then Inr None
           else
             bind_err (py_len clob_token_ids) (\<lambda>n.
             if n < 2 then Inr None
             else
               bind_err (py_index clob_token_ids 0) (\<lambda>tyes.
               bind_err (py_index clob_token_ids 1) (\<lambda>tno.
               bind_err (parse_spread_size lib d) (\<lambda>(max_sp0, min_sz).
               bind_err (parse_rewards_daily lib d) (\<lambda>rewards_daily.
               bind_err (float_or0 lib (dict_get d ''competitive'' (JInt 0))) (\<lambda>competitive.
               let max_sp = (if max_sp0 > 1 then max_sp0 / 100 else max_sp0);
                   ed = parse_end_date d event;
                   days = parse_days lib ed;
                   prices = parse_prices lib d
               in
               bind_err (price_at lib prices 0) (\<lambda>yes_price.
               bind_err (price_at lib prices 1) (\<lambda>no_price.
               bind_err (py_float (float_of_str lib)
                           (py_or (py_or (dict_get d ''volume24hr'' (JInt 0))
                                         (dict_get d ''volume_num'' (JInt 0)))
                                  (JInt 0))) (\<lambda>volume.
               bind_err (py_float (float_of_str lib)
                           (py_or (py_or (dict_get d ''liquidity'' (JInt 0))
                                         (dict_get d ''liquidityNum'' (JInt 0)))
                                  (JInt 0))) (\<lambda>liq.
               bind_err (float_or0 lib (dict_get d ''bestBid'' (JInt 0))) (\<lambda>bb0.
               bind_err (float_or0 lib (dict_get d ''bestAsk'' (JInt 0))) (\<lambda>ba0.
               Inr (Some (build_market d tyes tno ed days rewards_daily max_sp min_sz
                            yes_price no_price volume liq bb0 ba0)))))))))))))))
      | _ \<Rightarrow> Inl AttributeError)"

text \<open>\<^verbatim>\<open>parse_market\<close>: the \<^verbatim>\<open>try\<close> block under \<^verbatim>\<open>except Exception: return None\<close>.\<close>

definition parse_market ::
  "py_lib \<Rightarrow> json \<Rightarrow> (string \<times> json) list \<Rightarrow> py_error + RewardMarket option" where
  "parse_market lib raw event =
     (case parse_market_try lib raw event of
        Inl e \<Rightarrow> Inr None
      | Inr r \<Rightarrow> Inr r)"

subsection \<open>Quote strategist: \<^verbatim>\<open>place_lp_orders\<close>\<close>

text \<open>
  \<^verbatim>\<open>round(x, n)\<close> on a float: the closest multiple of \<open>10\<^sup>-\<^sup>n\<close>, a tie going to the even
  multiple.
\<close>

definition round_half_even :: "real \<Rightarrow> int" where
  "round_half_even x =
     (let f = \<lfloor>x\<rfloor>; r = x - of_int f
      in if r < 1 / 2 then f
         else if r > 1 / 2 then f + 1
         else if even f then f else f + 1)"

definition py_round :: "real \<Rightarrow> nat \<Rightarrow> real" where
  "py_round x n = of_int (round_half_even (x * 10 ^ n)) / 10 ^ n"

text \<open>
  The double closest to a real number: round to nearest, ties to the even significand, with
  a significand of 53 bits. For \<open>2\<^sup>e \<le> |x| < 2\<^sup>e\<^sup>+\<^sup>1\<close> the doubles around \<open>x\<close> are the multiples of
  \<open>2\<^sup>e\<^sup>-\<^sup>5\<^sup>2\<close>. The exponent is not bounded; a sum or difference of two doubles that does not
  overflow is rounded by the hardware to this value.
\<close>

definition binary64 :: "real \<Rightarrow> real" where
  "binary64 x =
     (if x = 0 then 0
      else (let e = \<lfloor>log 2 \<bar>x\<bar>\<rfloor>; u = 2 powr (of_int e - 52)
            in of_int (round_half_even (x / u)) * u))"

text \<open>\<^verbatim>\<open>x + y\<close> and \<^verbatim>\<open>x - y\<close> on floats.\<close>

definition float_add :: "real \<Rightarrow> real \<Rightarrow> real" where
  "float_add x y = binary64 (x + y)"

definition float_sub :: "real \<Rightarrow> real \<Rightarrow> real" where
  "float_sub x y = binary64 (x - y)"

text \<open>\<^verbatim>\<open>max(0.01, min(0.99, p))\<close>, lines 391, 392 and 424.\<close>

definition clamp_price :: "real \<Rightarrow> real" where
  "clamp_price p = max (1 / 100) (min (99 / 100) p)"

text \<open>
  The numbers \<^verbatim>\<open>place_lp_orders\<close> computes before and between its two submissions
  (lines 382--401 and 423--426). The arguments of \<^verbatim>\<open>round\<close> are sums of doubles, evaluated
  left to right.
\<close>

record quote =
  bid_price :: real
  ask_price :: real
  bid_shares :: real
  ask_shares :: real
  no_bid_price :: real
  no_shares :: real

definition quote_plan :: "config \<Rightarrow> RewardMarket \<Rightarrow> real \<Rightarrow> quote" where
  "quote_plan cfg m sz =
     (let mid = midpoint m;
          max_sp = max_spread m;
          bid0 = py_round (float_add (float_sub mid max_sp) (SPREAD_SAFETY_MARGIN cfg)) 3;
          ask0 = py_round (float_sub (float_add mid max_sp) (SPREAD_SAFETY_MARGIN cfg)) 3;
          bid = clamp_price bid0;
          ask = clamp_price ask0;
          bid_sh0 = (if bid > 0 then sz / bid else 0);
          ask_sh0 = (if ask > 0 then sz / ask else 0);
          min_shares = min_size m;
          bid_sh = max bid_sh0 min_shares;
          ask_sh = max ask_sh0 min_shares;
          no_bid0 = py_round (float_sub 1 ask) 3;
          no_bid = clamp_price no_bid0;
          no_sh0 = (if no_bid > 0 then sz / no_bid else 0);
          no_sh = max no_sh0 min_shares
      in \<lparr> bid_price = bid, ask_price = ask, bid_shares = bid_sh, ask_shares = ask_sh,
           no_bid_price = no_bid, no_shares = no_sh \<rparr>)"

subsection \<open>The order client\<close>

datatype side = BUY | SELL

record OrderArgs =
  oa_token_id :: json
  oa_price :: real
  oa_size :: real
  oa_side :: side

text \<open>
  The external order client, over a client state \<open>'c\<close> and a type \<open>'s\<close> of signed orders.
  Each operation returns the new client state and either an exception or its result; the
  response of \<^verbatim>\<open>post_order\<close> is a dictionary of strings.
\<close>

record ('c, 's) clob_client =
  create_order :: "'c \<Rightarrow> OrderArgs \<Rightarrow> (py_error + 's) \<times> 'c"
  post_order :: "'c \<Rightarrow> 's \<Rightarrow> (py_error + (string \<times> string) list) \<times> 'c"
  cancel :: "'c \<Rightarrow> string \<Rightarrow> (py_error + unit) \<times> 'c"




subsection \<open>Cancellation and shutdown\<close>

text \<open>
  \<^verbatim>\<open>cancel_order\<close>: the call sits in a \<^verbatim>\<open>try\<close> whose handler only prints, so the result
  is never an exception.
\<close>

definition cancel_order ::
  "('c, 's) clob_client \<Rightarrow> 'c \<Rightarrow> string \<Rightarrow> (py_error + unit) \<times> 'c" where
  "cancel_order cl c order_id =
     (case cancel cl c order_id of
        (Inl e, c1) \<Rightarrow> (Inr (), c1)
      | (Inr u, c1) \<Rightarrow> (Inr (), c1))"

text \<open>
  \<^verbatim>\<open>if order_id: cancel_order(client, order_id)\<close> on an optional string: \<^verbatim>\<open>None\<close> and
  the empty string are falsy.
\<close>

definition cancel_if_set ::
  "('c, 's) clob_client \<Rightarrow> 'c \<Rightarrow> string option \<Rightarrow> (py_error + unit) \<times> 'c" where
  "cancel_if_set cl c oid =
     (case oid of
        None \<Rightarrow> (Inr (), c)
      | Some s \<Rightarrow> if s \<noteq> [] then cancel_order cl c s else (Inr (), c))"

text \<open>
  The loop over the positions, written twice in the source (lines 671--675 in
  \<^verbatim>\<open>handle_signal\<close> and 698--702 in \<^verbatim>\<open>run_bot\<close>). An exception leaving
  \<^verbatim>\<open>cancel_order\<close> would end the loop.
\<close>

fun cancel_positions ::
  "('c, 's) clob_client \<Rightarrow> 'c \<Rightarrow> ActivePosition list \<Rightarrow> (py_error + unit) \<times> 'c" where
  "cancel_positions cl c [] = (Inr (), c)"
| "cancel_positions cl c (pos # rest) =
     (case cancel_if_set cl c (order_id_yes pos) of
        (Inl e, c1) \<Rightarrow> (Inl e, c1)
      | (Inr u, c1) \<Rightarrow>
          (case cancel_if_set cl c1 (order_id_no pos) of
             (Inl e, c2) \<Rightarrow> (Inl e, c2)
           | (Inr v, c2) \<Rightarrow> cancel_positions cl c2 rest))"

text \<open>
  \<^verbatim>\<open>handle_signal\<close>: cancel, notify, clear \<^verbatim>\<open>running\<close>, \<^verbatim>\<open>sys.exit(0)\<close>. The notification
  is fire-and-forget and is left out.
\<close>

datatype 'c shutdown = Exited int 'c | Propagated py_error 'c

definition handle_signal ::
  "('c, 's) clob_client \<Rightarrow> 'c \<Rightarrow> ActivePosition list \<Rightarrow> 'c shutdown" where
  "handle_signal cl c positions =
     (case cancel_positions cl c positions of
        (Inl e, c1) \<Rightarrow> Propagated e c1
      | (Inr u, c1) \<Rightarrow> Exited 0 c1)"

text \<open>
  A recording client: it behaves as the client it wraps and appends every call to a log
  kept beside the client state. It makes the calls of a run observable.
\<close>

datatype 's call = CreateOrder OrderArgs | PostOrder 's | Cancel string

definition recording ::
  "('c, 's) clob_client \<Rightarrow> ('c \<times> 's call list, 's) clob_client" where
  "recording cl =
     \<lparr> create_order = (\<lambda>(c, log) args.
         (case create_order cl c args of (r, c1) \<Rightarrow> (r, (c1, log @ [CreateOrder args])))),
       post_order = (\<lambda>(c, log) signed.
         (case post_order cl c signed of (r, c1) \<Rightarrow> (r, (c1, log @ [PostOrder signed])))),
       cancel = (\<lambda>(c, log) order_id.
         (case cancel cl c order_id of (r, c1) \<Rightarrow> (r, (c1, log @ [Cancel order_id])))) \<rparr>"

text \<open>The order handles of a position that the loop passes to \<^verbatim>\<open>cancel_order\<close>.\<close>

definition live_handles :: "ActivePosition \<Rightarrow> string list" where
  "live_handles pos =
     (case order_id_yes pos of None \<Rightarrow> [] | Some s \<Rightarrow> if s \<noteq> [] then [s] else []) @
     (case order_id_no pos of None \<Rightarrow> [] | Some s \<Rightarrow> if s \<noteq> [] then [s] else [])"

text \<open>Two clients for concrete runs: one whose every call fails, one that accepts all.\<close>

definition failing_client :: "(unit, unit) clob_client" where
  "failing_client =
     \<lparr> create_order = (\<lambda>c args. (Inl ExternalError, c)),
       post_order = (\<lambda>c signed. (Inl ExternalError, c)),
       cancel = (\<lambda>c order_id. (Inl ExternalError, c)) \<rparr>"


subsection \<open>Fill-risk monitor: \<^verbatim>\<open>check_fill_risk\<close>\<close>

text \<open>
  \<^verbatim>\<open>v[:n]\<close>, as the messages apply it to \<^verbatim>\<open>market.question\<close>: strings and lists can be
  sliced, anything else raises.
\<close>

fun py_slice_to :: "json \<Rightarrow> nat \<Rightarrow> py_error + json" where
  "py_slice_to (JStr s) n = Inr (JStr (take n s))"
| "py_slice_to (JList xs) n = Inr (JList (take n xs))"
| "py_slice_to (JDict kvs) n = Inl TypeError"
| "py_slice_to JNull n = Inl TypeError"
| "py_slice_to (JBool b) n = Inl TypeError"
| "py_slice_to (JInt i) n = Inl TypeError"
| "py_slice_to (JFloat r) n = Inl TypeError"

text \<open>
  Lines 476--481. \<open>resp\<close> is the outcome of the HTTP call \<^verbatim>\<open>clob_get("/midpoint", ...)\<close>;
  any exception, in the call or in reading its answer, falls back to the market's stored
  midpoint.
\<close>

definition current_midpoint :: "py_lib \<Rightarrow> py_error + json \<Rightarrow> RewardMarket \<Rightarrow> real" where
  "current_midpoint lib resp m =
     (case resp of
        Inl e \<Rightarrow> midpoint m
      | Inr (JDict d) \<Rightarrow>
          (case py_float (float_of_str lib) (dict_get d ''mid'' (JFloat (midpoint m))) of
             Inl e \<Rightarrow> midpoint m
           | Inr x \<Rightarrow> x)
      | Inr _ \<Rightarrow> midpoint m)"

text \<open>The two alert messages, by their contents.\<close>

datatype alert =
    FillRisk json real real real real real
  | ApproachingFill json real real real

text \<open>
  Lines 474--514, the body of the loop for one position: the alerts it appends and the
  position with its new risk level. Building a message slices the question, which is not
  inside a \<^verbatim>\<open>try\<close>.
\<close>

definition check_position ::
  "py_lib \<Rightarrow> config \<Rightarrow> py_error + json \<Rightarrow> ActivePosition \<Rightarrow>
   py_error + alert list \<times> ActivePosition" where
  "check_position lib cfg resp pos =
     (let m = market pos;
          current_mid = current_midpoint lib resp m;
          bid_distance = \<bar>current_mid - our_bid_price pos\<bar>;
          ask_distance = \<bar>current_mid - our_ask_price pos\<bar>;
          T = FILL_ALERT_THRESHOLD cfg
      in if bid_distance < T \<or> ask_distance < T then
           bind_err (py_slice_to (question m) 60) (\<lambda>q.
             Inr ([FillRisk q current_mid (our_bid_price pos) bid_distance
                     (our_ask_price pos) ask_distance],
                  pos\<lparr>pos_risk_level := CRITICAL\<rparr>))
         else if bid_distance < T * 2 \<or> ask_distance < T * 2 then
           bind_err (py_slice_to (question m) 60) (\<lambda>q.
             Inr ([ApproachingFill q current_mid bid_distance ask_distance],
                  pos\<lparr>pos_risk_level := WARNING\<rparr>))
         else if bid_distance < T * 3 \<or> ask_distance < T * 3 then
           Inr ([], pos\<lparr>pos_risk_level := WATCH\<rparr>)
         else
           Inr ([], pos\<lparr>pos_risk_level := SAFE\<rparr>))"

text \<open>
  \<^verbatim>\<open>check_fill_risk\<close>. \<open>clob_get i t\<close> is the outcome of the \<open>i\<close>-th midpoint request of the
  tick, for token \<open>t\<close>. The positions are updated in place, so they are returned also when
  an exception ends the loop.
\<close>

fun check_fill_risk_from ::
  "py_lib \<Rightarrow> config \<Rightarrow> (nat \<Rightarrow> json \<Rightarrow> py_error + json) \<Rightarrow> nat \<Rightarrow> alert list \<Rightarrow>
   ActivePosition list \<Rightarrow> (py_error + alert list) \<times> ActivePosition list" where
  "check_fill_risk_from lib cfg clob_get i alerts [] = (Inr alerts, [])"
| "check_fill_risk_from lib cfg clob_get i alerts (pos # rest) =
     (case check_position lib cfg (clob_get i (token_id_yes (market pos))) pos of
        Inl e \<Rightarrow> (Inl e, pos # rest)
      | Inr (new_alerts, pos1) \<Rightarrow>
          (case check_fill_risk_from lib cfg clob_get (Suc i) (alerts @ new_alerts) rest of
             (r, rest1) \<Rightarrow> (r, pos1 # rest1)))"

definition check_fill_risk ::
  "py_lib \<Rightarrow> config \<Rightarrow> (nat \<Rightarrow> json \<Rightarrow> py_error + json) \<Rightarrow> ActivePosition list \<Rightarrow>
   (py_error + alert list) \<times> ActivePosition list" where
  "check_fill_risk lib cfg clob_get positions =
     check_fill_risk_from lib cfg clob_get 0 [] positions"


subsection \<open>Orchestrator: the rescan of \<^verbatim>\<open>run_bot\<close> (lines 691--736)\<close>






subsection \<open>Fixtures for concrete runs\<close>

definition sample_market ::
  "string \<Rightarrow> real \<Rightarrow> real \<Rightarrow> real \<Rightarrow> real \<Rightarrow> real \<Rightarrow> real \<Rightarrow> RewardMarket" where
  "sample_market q days reward max_sp mid competition rpd =
     \<lparr> condition_id = JStr q, question = JStr q, slug = JStr q,
       token_id_yes = JStr ''yes'', token_id_no = JStr ''no'', end_date = JNull,
       days_to_resolution = days, daily_reward = reward, max_spread = max_sp, min_size = 0,
       midpoint = mid, best_bid = mid, best_ask = mid, spread = 0,
       volume_24h = 0, liquidity = 0, competition_score = competition, risk_score = 0,
       reward_per_dollar = rpd \<rparr>"

definition sample_markets :: "RewardMarket list" where
  "sample_markets =
     [sample_market ''a'' 30 2 (1 / 10) (1 / 2) 10 (1 / 100),
      sample_market ''b'' 30 2 (1 / 10) (1 / 2) 10 (2 / 100),
      sample_market ''c'' 3 2 (1 / 10) (1 / 2) 10 (5 / 100),
      sample_market ''d'' 30 2 (1 / 10) (1 / 2) 10 (1 / 100),
      sample_market ''e'' 30 4 (1 / 10) (1 / 2) 10 (2 / 100)]"

definition sample_lib :: py_lib where
  "sample_lib =
     \<lparr> float_of_str = (\<lambda>s. None), json_loads = (\<lambda>s. None), days_until = (\<lambda>s. None) \<rparr>"

definition sample_position :: "string option \<Rightarrow> string option \<Rightarrow> real \<Rightarrow> real \<Rightarrow> ActivePosition" where
  "sample_position oid_yes oid_no bid ask =
     \<lparr> market = sample_market ''m'' 30 2 (1 / 10) (1 / 2) 10 (1 / 100),
       order_id_yes = oid_yes, order_id_no = oid_no,
       our_bid_price = bid, our_ask_price = ask, size_alloc = 500, placed_at = ''t0'',
       fills_today = 0, rewards_earned = 0, pos_risk_level = LOW \<rparr>"


text \<open>A raw market record, with its token list, prices, liquidity and top of book left open.\<close>

definition sample_fields ::
  "json \<Rightarrow> json \<Rightarrow> json \<Rightarrow> json \<Rightarrow> json \<Rightarrow> (string \<times> json) list" where
  "sample_fields tokens prices liq bid ask =
     [(''clobTokenIds'', tokens),
      (''question'', JStr ''Q''),
      (''rewardsMaxSpread'', JFloat (35 / 10)),
      (''rewardsMinSize'', JInt 50),
      (''rewards'', JList [JDict [(''rewardsDailyRate'', JInt 5)]]),
      (''outcomePrices'', prices),
      (''volume24hr'', JInt 2000),
      (''liquidity'', liq),
      (''bestBid'', bid),
      (''bestAsk'', ask)]"

definition sample_raw :: "json \<Rightarrow> json \<Rightarrow> json \<Rightarrow> json \<Rightarrow> json \<Rightarrow> json" where
  "sample_raw tokens prices liq bid ask = JDict (sample_fields tokens prices liq bid ask)"

definition two_tokens :: json where
  "two_tokens = JList [JStr ''tokY'', JStr ''tokN'']"


section \<open>Properties\<close>

subsection \<open>Ranker\<close>

lemma sorted_sort_key_reverse:
  "sorted_wrt (\<lambda>a b. k a \<ge> k b) (sort_key_reverse k xs)"
proof -
  have "sorted (map (\<lambda>x. - k x) (sort_key (\<lambda>x. - k x) xs))"
    by (rule sorted_sort_key)
  then show ?thesis
    by (simp add: sort_key_reverse_def sorted_map)
qed

lemma set_sort_key_reverse: "set (sort_key_reverse k xs) = set xs"
  by (simp add: sort_key_reverse_def)

lemma sort_key_reverse_stable:
  "filter (\<lambda>y. k y = v) (sort_key_reverse k xs) = filter (\<lambda>y. k y = v) xs"
proof -
  have "filter (\<lambda>y. - k y = - v) (sort_key (\<lambda>x. - k x) xs) = filter (\<lambda>y. - k y = - v) xs"
    by (rule sort_key_stable)
  then show ?thesis
    by (simp add: sort_key_reverse_def)
qed

lemma passes_filters_iff:
  "passes_filters cfg m \<longleftrightarrow>
     days_to_resolution m \<ge> of_int (MIN_DAYS_TO_RESOLUTION cfg) \<and>
     daily_reward m \<ge> MIN_DAILY_REWARD cfg \<and>
     competition_score m \<le> MAX_COMPETITION_SCORE cfg"
  by (auto simp: passes_filters_def)

text \<open>
  C1. Every market the ranker returns has a positive daily reward and a positive maximum
  spread and passes the three thresholds; the output is in non-ascending order of
  \<open>reward_per_dollar\<close>; and the sort is stable: for every key value, the markets with that
  key appear in the output in the order they had in the input. The ranker is a function
  of the configuration and the input list, so equal inputs give equal outputs.
\<close>

theorem ranker_eligible_sorted_stable:
  "(\<forall>m \<in> set (rank_reward_markets cfg ms).
      daily_reward m > 0 \<and> max_spread m > 0 \<and>
      days_to_resolution m \<ge> of_int (MIN_DAYS_TO_RESOLUTION cfg) \<and>
      daily_reward m \<ge> MIN_DAILY_REWARD cfg \<and>
      competition_score m \<le> MAX_COMPETITION_SCORE cfg) \<and>
   sorted_wrt (\<lambda>a b. reward_per_dollar a \<ge> reward_per_dollar b) (rank_reward_markets cfg ms) \<and>
   (\<forall>v. filter (\<lambda>m. reward_per_dollar m = v) (rank_reward_markets cfg ms) =
        filter (\<lambda>m. reward_per_dollar m = v)
          (filter (\<lambda>m. has_rewards m \<and> passes_filters cfg m) ms))"
proof -
  have elig: "\<forall>m \<in> set (rank_reward_markets cfg ms).
      daily_reward m > 0 \<and> max_spread m > 0 \<and>
      days_to_resolution m \<ge> of_int (MIN_DAYS_TO_RESOLUTION cfg) \<and>
      daily_reward m \<ge> MIN_DAILY_REWARD cfg \<and>
      competition_score m \<le> MAX_COMPETITION_SCORE cfg"
  proof
    fix m assume "m \<in> set (rank_reward_markets cfg ms)"
    then have "has_rewards m" and "passes_filters cfg m"
      by (simp_all add: rank_reward_markets_def set_sort_key_reverse)
    then show "daily_reward m > 0 \<and> max_spread m > 0 \<and>
        days_to_resolution m \<ge> of_int (MIN_DAYS_TO_RESOLUTION cfg) \<and>
        daily_reward m \<ge> MIN_DAILY_REWARD cfg \<and>
        competition_score m \<le> MAX_COMPETITION_SCORE cfg"
      by (simp add: has_rewards_def passes_filters_iff)
  qed
  have srt: "sorted_wrt (\<lambda>a b. reward_per_dollar a \<ge> reward_per_dollar b)
               (rank_reward_markets cfg ms)"
    by (simp add: rank_reward_markets_def sorted_sort_key_reverse)
  have stab: "\<forall>v. filter (\<lambda>m. reward_per_dollar m = v) (rank_reward_markets cfg ms) =
        filter (\<lambda>m. reward_per_dollar m = v)
          (filter (\<lambda>m. has_rewards m \<and> passes_filters cfg m) ms)"
    by (simp add: rank_reward_markets_def sort_key_reverse_stable conj_commute)
  from elig srt stab show ?thesis by blast
qed

text \<open>
  On five sample markets with the default thresholds: \<open>c\<close> resolves too soon and is
  dropped, \<open>b\<close> and \<open>e\<close> tie on the higher key and keep their order, as do \<open>a\<close> and \<open>d\<close>.
\<close>

theorem ranker_eligible_sorted_stable_witness:
  "map question (rank_reward_markets default_config sample_markets) =
     [JStr ''b'', JStr ''e'', JStr ''a'', JStr ''d''] \<and>
   sample_market ''e'' 30 4 (1 / 10) (1 / 2) 10 (2 / 100)
     \<in> set (rank_reward_markets default_config sample_markets) \<and>
   daily_reward (sample_market ''e'' 30 4 (1 / 10) (1 / 2) 10 (2 / 100)) > 0 \<and>
   days_to_resolution (sample_market ''e'' 30 4 (1 / 10) (1 / 2) 10 (2 / 100))
     \<ge> of_int (MIN_DAYS_TO_RESOLUTION default_config)"
proof -
  have run: "rank_reward_markets default_config sample_markets =
     [sample_market ''b'' 30 2 (1 / 10) (1 / 2) 10 (2 / 100),
      sample_market ''e'' 30 4 (1 / 10) (1 / 2) 10 (2 / 100),
      sample_market ''a'' 30 2 (1 / 10) (1 / 2) 10 (1 / 100),
      sample_market ''d'' 30 2 (1 / 10) (1 / 2) 10 (1 / 100)]"
    by (simp add: rank_reward_markets_def sample_markets_def sample_market_def
        default_config_def has_rewards_def passes_filters_def sort_key_reverse_def)
  have names: "map question (rank_reward_markets default_config sample_markets) =
     [JStr ''b'', JStr ''e'', JStr ''a'', JStr ''d'']"
    unfolding run by (simp add: sample_market_def)
  have mem: "sample_market ''e'' 30 4 (1 / 10) (1 / 2) 10 (2 / 100)
     \<in> set (rank_reward_markets default_config sample_markets)"
    unfolding run by simp
  from ranker_eligible_sorted_stable [of default_config sample_markets] mem names
  show ?thesis by blast
qed

subsection \<open>Quote strategist\<close>

lemma round_half_even_bounds:
  "\<lfloor>x\<rfloor> \<le> round_half_even x \<and> round_half_even x \<le> \<lfloor>x\<rfloor> + 1"
  by (simp add: round_half_even_def Let_def)

lemma round_half_even_of_int [simp]: "round_half_even (of_int n) = n"
  by (simp add: round_half_even_def Let_def)

lemma round_half_even_numeral [simp]: "round_half_even (numeral n) = numeral n"
  using round_half_even_of_int [of "numeral n"] by simp

lemma round_half_even_neg_numeral [simp]:
  "round_half_even (- numeral n) = - numeral n"
  using round_half_even_of_int [of "- numeral n"] by simp

lemma round_half_even_mono:
  assumes "x \<le> y"
  shows "round_half_even x \<le> round_half_even y"
proof (cases "\<lfloor>x\<rfloor> = \<lfloor>y\<rfloor>")
  case True
  with assms have "x - of_int \<lfloor>x\<rfloor> \<le> y - of_int \<lfloor>y\<rfloor>" by simp
  with True show ?thesis
    by (auto simp: round_half_even_def Let_def)
next
  case False
  with assms have "\<lfloor>x\<rfloor> < \<lfloor>y\<rfloor>"
    by (simp add: floor_mono order.strict_iff_order)
  with round_half_even_bounds [of x] round_half_even_bounds [of y] show ?thesis
    by linarith
qed

lemma py_round_mono: "x \<le> y \<Longrightarrow> py_round x n \<le> py_round y n"
  by (simp add: py_round_def divide_right_mono round_half_even_mono)






lemma clamp_price_mid: "1 / 100 \<le> p \<Longrightarrow> p \<le> 99 / 100 \<Longrightarrow> clamp_price p = p"
  by (simp add: clamp_price_def max_def min_def)



lemma clamp_price_mono: "p \<le> q \<Longrightarrow> clamp_price p \<le> clamp_price q"
  by (auto simp: clamp_price_def max_def min_def)


lemma round_half_even_error: "\<bar>of_int (round_half_even x) - x\<bar> \<le> 1 / 2"
  by (auto simp: round_half_even_def Let_def abs_if) linarith+

lemma round_half_even_near:
  assumes "\<bar>x - of_int k\<bar> < 1 / 2"
  shows "round_half_even x = k"
proof -
  from assms have lo: "of_int k - 1 / 2 < x" and hi: "x < of_int k + 1 / 2"
    by (simp_all add: abs_if split: if_splits)
  show ?thesis
  proof (cases "of_int k \<le> x")
    case True
    with hi have "\<lfloor>x\<rfloor> = k" by (simp add: floor_eq_iff)
    with hi show ?thesis by (simp add: round_half_even_def Let_def)
  next
    case False
    with lo have "\<lfloor>x\<rfloor> = k - 1" by (simp add: floor_eq_iff)
    with lo show ?thesis by (simp add: round_half_even_def Let_def)
  qed
qed

lemma round_half_even_tie:
  "round_half_even (of_int k + 1 / 2) = (if even k then k else k + 1)"
proof -
  have "\<lfloor>of_int k + 1 / 2 :: real\<rfloor> = k" by (simp add: floor_eq_iff)
  then show ?thesis by (simp add: round_half_even_def Let_def)
qed

lemma py_round_near:
  assumes "\<bar>x - of_int k / 1000\<bar> < 1 / 2000"
  shows "py_round x 3 = of_int k / 1000"
proof -
  have "\<bar>x * 1000 - of_int k\<bar> = \<bar>x - of_int k / 1000\<bar> * 1000"
    by (simp add: abs_if field_simps)
  with assms have "\<bar>x * 1000 - of_int k\<bar> < 1 / 2" by simp
  then have "round_half_even (x * 1000) = k" by (rule round_half_even_near)
  then show ?thesis by (simp add: py_round_def)
qed

text \<open>Rounding to a double moves a number by at most half a unit in the last place.\<close>

lemma binary64_error: "\<bar>binary64 x - x\<bar> \<le> \<bar>x\<bar> / 2 ^ 53"
proof (cases "x = 0")
  case True
  then show ?thesis by (simp add: binary64_def)
next
  case False
  define e where "e = \<lfloor>log 2 \<bar>x\<bar>\<rfloor>"
  define u :: real where "u = 2 powr (of_int e - 52)"
  have u: "0 < u" by (simp add: u_def)
  from False have "0 < \<bar>x\<bar>" by simp
  then have "2 powr of_int e \<le> \<bar>x\<bar>"
    using floor_log_eq_powr_iff [of "\<bar>x\<bar>" 2 e] by (simp add: e_def)
  moreover have "2 powr of_int e = u * 2 ^ 52"
    by (simp add: u_def powr_diff)
  ultimately have le: "u * 2 ^ 52 \<le> \<bar>x\<bar>" by simp
  have b: "binary64 x = of_int (round_half_even (x / u)) * u"
    using False by (simp add: binary64_def Let_def e_def u_def)
  have "\<bar>binary64 x - x\<bar> = \<bar>of_int (round_half_even (x / u)) - x / u\<bar> * u"
    using u by (simp add: b abs_mult [symmetric] field_simps)
  also have "\<dots> \<le> (1 / 2) * u"
    using u round_half_even_error [of "x / u"] by (intro mult_right_mono) simp_all
  also have "\<dots> = u * 2 ^ 52 / 2 ^ 53" by simp
  also have "\<dots> \<le> \<bar>x\<bar> / 2 ^ 53" using le by (intro divide_right_mono) simp_all
  finally show ?thesis .
qed

text \<open>
  The double closest to a positive number, once its binade is known: \<open>n\<close> is \<open>52\<close> minus the
  exponent.
\<close>

lemma binary64_eval:
  assumes "0 < x" and "2 ^ 52 \<le> x * 2 ^ n" and "x * 2 ^ n < 2 ^ 53"
  shows "binary64 x = of_int (round_half_even (x * 2 ^ n)) / 2 ^ n"
proof -
  have p: "2 powr (of_int (52 - int n)) = 2 ^ 52 / (2 :: real) ^ n"
    by (simp add: powr_diff powr_realpow)
  have q: "2 powr (of_int (52 - int n + 1)) = 2 ^ 53 / (2 :: real) ^ n"
    by (simp add: powr_diff powr_realpow powr_add)
  have "\<lfloor>log 2 x\<rfloor> = 52 - int n"
    using assms floor_log_eq_powr_iff [of x 2 "52 - int n"]
    unfolding p q by (simp add: field_simps)
  moreover have "2 powr (of_int (52 - int n) - 52) = 1 / (2 :: real) ^ n"
    by (simp add: powr_minus_divide powr_realpow)
  ultimately show ?thesis
    using assms(1) by (simp add: binary64_def Let_def)
qed

lemma binary64_near:
  assumes "0 < x" and "2 ^ 52 \<le> x * 2 ^ n" and "x * 2 ^ n < 2 ^ 53"
    and "\<bar>x * 2 ^ n - of_int k\<bar> < 1 / 2"
  shows "binary64 x = of_int k / 2 ^ n"
  using binary64_eval [OF assms(1-3)] round_half_even_near [OF assms(4)] by simp

lemma binary64_tie:
  assumes "0 < x" and "2 ^ 52 \<le> x * 2 ^ n" and "x * 2 ^ n < 2 ^ 53"
    and "x * 2 ^ n = of_int k + 1 / 2"
  shows "binary64 x = of_int (if even k then k else k + 1) / 2 ^ n"
  using binary64_eval [OF assms(1-3)] round_half_even_tie [of k] by (simp only: assms(4))


lemma float_sum_error:
  assumes "\<bar>a\<bar> \<le> 1" and "\<bar>b\<bar> \<le> 1" and "\<bar>c\<bar> \<le> 1"
  shows "\<bar>float_add (float_sub a b) c - (a - b + c)\<bar> \<le> 1 / 2 ^ 50"
    and "\<bar>float_sub (float_add a b) c - (a + b - c)\<bar> \<le> 1 / 2 ^ 50"
proof -
  have two: "\<And>x y z. \<bar>x\<bar> \<le> 2 \<Longrightarrow> \<bar>y - x\<bar> \<le> \<bar>x\<bar> / 2 ^ 53 \<Longrightarrow> \<bar>z\<bar> \<le> 1 \<Longrightarrow>
      \<bar>binary64 (y + z) - (x + z)\<bar> \<le> 1 / 2 ^ 50"
  proof -
    fix x y z :: real
    assume x: "\<bar>x\<bar> \<le> 2" and y: "\<bar>y - x\<bar> \<le> \<bar>x\<bar> / 2 ^ 53" and z: "\<bar>z\<bar> \<le> 1"
    from x have "\<bar>x\<bar> / 2 ^ 53 \<le> 2 / 2 ^ 53" by (intro divide_right_mono) simp_all
    with y have y1: "\<bar>y - x\<bar> \<le> 2 / 2 ^ 53" by linarith
    with x z have "\<bar>y + z\<bar> \<le> 4" by (simp add: abs_if split: if_splits)
    then have "\<bar>y + z\<bar> / 2 ^ 53 \<le> 4 / 2 ^ 53" by (intro divide_right_mono) simp_all
    with binary64_error [of "y + z"] have "\<bar>binary64 (y + z) - (y + z)\<bar> \<le> 4 / 2 ^ 53"
      by linarith
    with y1 have "\<bar>binary64 (y + z) - (x + z)\<bar> \<le> 6 / 2 ^ 53" by linarith
    then show "\<bar>binary64 (y + z) - (x + z)\<bar> \<le> 1 / 2 ^ 50" by simp
  qed
  from assms(1,2) have 1: "\<bar>a - b\<bar> \<le> 2" "\<bar>a + b\<bar> \<le> 2" by linarith+
  from two [OF 1(1) binary64_error assms(3)]
  show "\<bar>float_add (float_sub a b) c - (a - b + c)\<bar> \<le> 1 / 2 ^ 50"
    by (simp add: float_add_def float_sub_def)
  from assms(3) have "\<bar>- c\<bar> \<le> 1" by simp
  from two [OF 1(2) binary64_error this]
  show "\<bar>float_sub (float_add a b) c - (a + b - c)\<bar> \<le> 1 / 2 ^ 50"
    by (simp add: float_add_def float_sub_def)
qed

text \<open>
  Where the exact sum is within a quarter of a tick of a grid point, the rounded sum of
  doubles is that grid point.
\<close>

lemma quote_sums_near:
  assumes "\<bar>a\<bar> \<le> 1" and "\<bar>b\<bar> \<le> 1" and "\<bar>c\<bar> \<le> 1"
  shows "\<bar>a - b + c - of_int k / 1000\<bar> < 1 / 4000 \<Longrightarrow>
      py_round (float_add (float_sub a b) c) 3 = of_int k / 1000"
    and "\<bar>a + b - c - of_int k / 1000\<bar> < 1 / 4000 \<Longrightarrow>
      py_round (float_sub (float_add a b) c) 3 = of_int k / 1000"
proof -
  have small: "(1 :: real) / 2 ^ 50 + 1 / 4000 < 1 / 2000" by simp
  {
    assume "\<bar>a - b + c - of_int k / 1000\<bar> < 1 / 4000"
    with float_sum_error(1) [OF assms] small
    have "\<bar>float_add (float_sub a b) c - of_int k / 1000\<bar> < 1 / 2000" by linarith
    then show "py_round (float_add (float_sub a b) c) 3 = of_int k / 1000"
      by (rule py_round_near)
  }
  {
    assume "\<bar>a + b - c - of_int k / 1000\<bar> < 1 / 4000"
    with float_sum_error(2) [OF assms] small
    have "\<bar>float_sub (float_add a b) c - of_int k / 1000\<bar> < 1 / 2000" by linarith
    then show "py_round (float_sub (float_add a b) c) 3 = of_int k / 1000"
      by (rule py_round_near)
  }
qed

text \<open>The doubles of the literals used below lie next to their decimals.\<close>

lemma double_tenth: "\<bar>binary64 (1 / 10) - 1 / 10\<bar> \<le> 1 / 2 ^ 53"
  using binary64_error [of "1 / 10"] by simp

lemma double_margin: "\<bar>binary64 (5 / 1000) - 5 / 1000\<bar> \<le> 1 / 2 ^ 53"
  using binary64_error [of "5 / 1000"] by simp

lemma double_thin: "\<bar>binary64 (1 / 1000) - 1 / 1000\<bar> \<le> 1 / 2 ^ 53"
  using binary64_error [of "1 / 1000"] by simp



lemma quote_plan_bid:
  "bid_price (quote_plan cfg m sz) =
     clamp_price (py_round
       (float_add (float_sub (midpoint m) (max_spread m)) (SPREAD_SAFETY_MARGIN cfg)) 3)"
  by (simp add: quote_plan_def Let_def)

lemma quote_plan_ask:
  "ask_price (quote_plan cfg m sz) =
     clamp_price (py_round
       (float_sub (float_add (midpoint m) (max_spread m)) (SPREAD_SAFETY_MARGIN cfg)) 3)"
  by (simp add: quote_plan_def Let_def)







text \<open>
  The order of the two raw quotes. With the margin not above the spread the exact sums are
  ordered, and each sum of doubles is within \<open>2\<^sup>-\<^sup>5\<^sup>0\<close> of its exact sum.
\<close>

lemma raw_quotes_order:
  assumes "\<bar>a\<bar> \<le> 1" and "\<bar>b\<bar> \<le> 1" and "\<bar>c\<bar> \<le> 1" and "c \<le> b"
  shows "float_add (float_sub a b) c \<le> float_sub (float_add a b) c + 1 / 2 ^ 49"
    and "c + 1 / 10 ^ 15 \<le> b \<Longrightarrow> float_add (float_sub a b) c \<le> float_sub (float_add a b) c"
proof -
  note e = float_sum_error [OF assms(1-3)]
  have h: "(1 :: real) / 2 ^ 50 + 1 / 2 ^ 50 = 1 / 2 ^ 49" by simp
  from e assms(4) h
  show "float_add (float_sub a b) c \<le> float_sub (float_add a b) c + 1 / 2 ^ 49"
    by linarith
  have g: "(1 :: real) / 2 ^ 49 \<le> 2 * (1 / 10 ^ 15)" by simp
  {
    assume "c + 1 / 10 ^ 15 \<le> b"
    with e h g show "float_add (float_sub a b) c \<le> float_sub (float_add a b) c"
      by linarith
  }
qed

lemma py_round_within_tick:
  assumes "x \<le> y + 1 / 2 ^ 49"
  shows "py_round x 3 \<le> py_round y 3 + 1 / 1000"
proof -
  let ?i = "round_half_even (x * 1000)" and ?j = "round_half_even (y * 1000)"
  have s: "(1000 :: real) / 2 ^ 49 < 1" by simp
  from assms have "x * 1000 \<le> y * 1000 + 1000 / 2 ^ 49" by simp
  with round_half_even_error [of "x * 1000"] round_half_even_error [of "y * 1000"] s
  have "(of_int ?i :: real) < of_int ?j + 2" by linarith
  then have "(of_int ?i :: real) < of_int (?j + 2)" by simp
  then have "?i < ?j + 2" by (simp only: of_int_less_iff)
  then have "?i \<le> ?j + 1" by simp
  then have "(of_int ?i :: real) \<le> of_int (?j + 1)" by (simp only: of_int_le_iff)
  then show ?thesis by (simp add: py_round_def field_simps)
qed

lemma clamp_price_add: "0 \<le> t \<Longrightarrow> clamp_price (p + t) \<le> clamp_price p + t"
  by (auto simp: clamp_price_def max_def min_def)

lemma quote_within_tick:
  assumes "\<bar>midpoint m\<bar> \<le> 1" and "\<bar>max_spread m\<bar> \<le> 1" and "\<bar>SPREAD_SAFETY_MARGIN cfg\<bar> \<le> 1"
    and "SPREAD_SAFETY_MARGIN cfg \<le> max_spread m"
  shows "bid_price (quote_plan cfg m sz) \<le> ask_price (quote_plan cfg m sz) + 1 / 1000"
proof -
  let ?B = "float_add (float_sub (midpoint m) (max_spread m)) (SPREAD_SAFETY_MARGIN cfg)"
  let ?A = "float_sub (float_add (midpoint m) (max_spread m)) (SPREAD_SAFETY_MARGIN cfg)"
  have "?B \<le> ?A + 1 / 2 ^ 49" using assms by (rule raw_quotes_order(1))
  then have "py_round ?B 3 \<le> py_round ?A 3 + 1 / 1000" by (rule py_round_within_tick)
  then have "clamp_price (py_round ?B 3) \<le> clamp_price (py_round ?A 3 + 1 / 1000)"
    by (rule clamp_price_mono)
  also have "\<dots> \<le> clamp_price (py_round ?A 3) + 1 / 1000"
    by (rule clamp_price_add) simp
  finally show ?thesis by (simp only: quote_plan_bid quote_plan_ask)
qed

lemma quote_not_crossed:
  assumes "\<bar>midpoint m\<bar> \<le> 1" and "\<bar>max_spread m\<bar> \<le> 1" and "\<bar>SPREAD_SAFETY_MARGIN cfg\<bar> \<le> 1"
    and "SPREAD_SAFETY_MARGIN cfg + 1 / 10 ^ 15 \<le> max_spread m"
  shows "bid_price (quote_plan cfg m sz) \<le> ask_price (quote_plan cfg m sz)"
proof -
  let ?B = "float_add (float_sub (midpoint m) (max_spread m)) (SPREAD_SAFETY_MARGIN cfg)"
  let ?A = "float_sub (float_add (midpoint m) (max_spread m)) (SPREAD_SAFETY_MARGIN cfg)"
  have "(0 :: real) \<le> 1 / 10 ^ 15" by simp
  with assms(4) have "SPREAD_SAFETY_MARGIN cfg \<le> max_spread m" by linarith
  from raw_quotes_order(2) [OF assms(1-3) this assms(4)]
  have "?B \<le> ?A" .
  then have "clamp_price (py_round ?B 3) \<le> clamp_price (py_round ?A 3)"
    by (intro clamp_price_mono py_round_mono)
  then show ?thesis by (simp only: quote_plan_bid quote_plan_ask)
qed

text \<open>
  The doubles of the literals \<^verbatim>\<open>0.0135\<close> and \<^verbatim>\<open>0.005\<close>, and the four sums of the quotes for
  midpoint \<^verbatim>\<open>0.0135\<close> with maximum spread and margin \<^verbatim>\<open>0.005\<close>. Three of the four sums lie
  halfway between two doubles.
\<close>

lemma double_0135: "binary64 (135 / 10000) = 7782220156096217 / 2 ^ 59"
  using binary64_near [of "135 / 10000" 59 7782220156096217] by simp

lemma double_005: "binary64 (5 / 1000) = 5764607523034235 / 2 ^ 60"
  using binary64_near [of "5 / 1000" 60 5764607523034235] by simp

lemma tight_bid_sub:
  "float_sub (7782220156096217 / 2 ^ 59) (5764607523034235 / 2 ^ 60)
    = 4899916394579100 / 2 ^ 59"
  unfolding float_sub_def
  using binary64_tie [of "7782220156096217 / 2 ^ 59 - 5764607523034235 / 2 ^ 60" 59
      4899916394579099] by simp

lemma tight_bid_add:
  "float_add (4899916394579100 / 2 ^ 59) (5764607523034235 / 2 ^ 60)
    = 7782220156096218 / 2 ^ 59"
  unfolding float_add_def
  using binary64_tie [of "4899916394579100 / 2 ^ 59 + 5764607523034235 / 2 ^ 60" 59
      7782220156096217] by simp

lemma tight_ask_add:
  "float_add (7782220156096217 / 2 ^ 59) (5764607523034235 / 2 ^ 60)
    = 5332261958806667 / 2 ^ 58"
  unfolding float_add_def
  using binary64_near [of "7782220156096217 / 2 ^ 59 + 5764607523034235 / 2 ^ 60" 58
      5332261958806667] by simp

lemma tight_ask_sub:
  "float_sub (5332261958806667 / 2 ^ 58) (5764607523034235 / 2 ^ 60)
    = 7782220156096216 / 2 ^ 59"
  unfolding float_sub_def
  using binary64_tie [of "5332261958806667 / 2 ^ 58 - 5764607523034235 / 2 ^ 60" 59
      7782220156096216] by simp

lemma tight_bid_round: "py_round (7782220156096218 / 2 ^ 59) 3 = 14 / 1000"
  using py_round_near [of "7782220156096218 / 2 ^ 59" 14] by simp

lemma tight_ask_round: "py_round (7782220156096216 / 2 ^ 59) 3 = 13 / 1000"
  using py_round_near [of "7782220156096216 / 2 ^ 59" 13] by simp

lemma quote_tight_example:
  "float_add (float_sub (binary64 (135 / 10000)) (binary64 (5 / 1000))) (binary64 (5 / 1000))
     = 7782220156096218 / 2 ^ 59 \<and>
   float_sub (float_add (binary64 (135 / 10000)) (binary64 (5 / 1000))) (binary64 (5 / 1000))
     = 7782220156096216 / 2 ^ 59 \<and>
   bid_price (quote_plan (default_config\<lparr>SPREAD_SAFETY_MARGIN := binary64 (5 / 1000)\<rparr>)
      (sample_market ''tight'' 30 2 (binary64 (5 / 1000)) (binary64 (135 / 10000)) 10 (1 / 100))
      500) = 14 / 1000 \<and>
   ask_price (quote_plan (default_config\<lparr>SPREAD_SAFETY_MARGIN := binary64 (5 / 1000)\<rparr>)
      (sample_market ''tight'' 30 2 (binary64 (5 / 1000)) (binary64 (135 / 10000)) 10 (1 / 100))
      500) = 13 / 1000"
proof -
  have b: "float_add (float_sub (binary64 (135 / 10000)) (binary64 (5 / 1000)))
      (binary64 (5 / 1000)) = 7782220156096218 / 2 ^ 59"
    by (simp only: double_0135 double_005 tight_bid_sub tight_bid_add)
  have a: "float_sub (float_add (binary64 (135 / 10000)) (binary64 (5 / 1000)))
      (binary64 (5 / 1000)) = 7782220156096216 / 2 ^ 59"
    by (simp only: double_0135 double_005 tight_ask_add tight_ask_sub)
  have c: "clamp_price (14 / 1000) = 14 / 1000" "clamp_price (13 / 1000) = 13 / 1000"
    by (rule clamp_price_mid; simp)+
  have m: "midpoint (sample_market ''tight'' 30 2 (binary64 (5 / 1000)) (binary64 (135 / 10000))
        10 (1 / 100)) = binary64 (135 / 10000)"
      "max_spread (sample_market ''tight'' 30 2 (binary64 (5 / 1000)) (binary64 (135 / 10000))
        10 (1 / 100)) = binary64 (5 / 1000)"
    by (simp_all only: sample_market_def RewardMarket.simps)
  have g: "SPREAD_SAFETY_MARGIN (default_config\<lparr>SPREAD_SAFETY_MARGIN := binary64 (5 / 1000)\<rparr>)
        = binary64 (5 / 1000)"
    by simp
  have qb: "bid_price (quote_plan (default_config\<lparr>SPREAD_SAFETY_MARGIN := binary64 (5 / 1000)\<rparr>)
      (sample_market ''tight'' 30 2 (binary64 (5 / 1000)) (binary64 (135 / 10000)) 10 (1 / 100))
      500) = 14 / 1000"
    by (simp only: quote_plan_bid m g b tight_bid_round c)
  have qa: "ask_price (quote_plan (default_config\<lparr>SPREAD_SAFETY_MARGIN := binary64 (5 / 1000)\<rparr>)
      (sample_market ''tight'' 30 2 (binary64 (5 / 1000)) (binary64 (135 / 10000)) 10 (1 / 100))
      500) = 13 / 1000"
    by (simp only: quote_plan_ask m g a tight_ask_round c)
  from b a qb qa show ?thesis by (intro conjI)
qed

lemma quote_crossed_example:
  "max_spread (sample_market ''thin'' 30 2 (binary64 (1 / 1000)) (1 / 2) 10 (1 / 100))
     < SPREAD_SAFETY_MARGIN (default_config\<lparr>SPREAD_SAFETY_MARGIN := binary64 (5 / 1000)\<rparr>) \<and>
   ask_price (quote_plan (default_config\<lparr>SPREAD_SAFETY_MARGIN := binary64 (5 / 1000)\<rparr>)
      (sample_market ''thin'' 30 2 (binary64 (1 / 1000)) (1 / 2) 10 (1 / 100)) 500) = 496 / 1000 \<and>
   bid_price (quote_plan (default_config\<lparr>SPREAD_SAFETY_MARGIN := binary64 (5 / 1000)\<rparr>)
      (sample_market ''thin'' 30 2 (binary64 (1 / 1000)) (1 / 2) 10 (1 / 100)) 500) = 504 / 1000"
proof -
  let ?s = "binary64 (1 / 1000)" and ?g = "binary64 (5 / 1000)"
  note d = double_thin double_margin
  have r: "\<bar>1 / 2 :: real\<bar> \<le> 1" "\<bar>?s\<bar> \<le> 1" "\<bar>?g\<bar> \<le> 1"
    using d unfolding abs_le_iff by simp_all
  have lt: "?s < ?g"
    using d unfolding abs_le_iff by simp
  have "\<bar>1 / 2 - ?s + ?g - of_int 504 / 1000\<bar> < 1 / 4000"
    using d unfolding abs_le_iff abs_less_iff by simp
  from quote_sums_near(1) [OF r this]
  have b: "py_round (float_add (float_sub (1 / 2) ?s) ?g) 3 = 504 / 1000" by simp
  have "\<bar>1 / 2 + ?s - ?g - of_int 496 / 1000\<bar> < 1 / 4000"
    using d unfolding abs_le_iff abs_less_iff by simp
  from quote_sums_near(2) [OF r this]
  have a: "py_round (float_sub (float_add (1 / 2) ?s) ?g) 3 = 496 / 1000" by simp
  let ?m = "sample_market ''thin'' 30 2 ?s (1 / 2) 10 (1 / 100)"
  let ?cfg = "default_config\<lparr>SPREAD_SAFETY_MARGIN := ?g\<rparr>"
  have qb: "bid_price (quote_plan ?cfg ?m 500) = 504 / 1000"
    using b by (simp add: quote_plan_bid clamp_price_def sample_market_def)
  have qa: "ask_price (quote_plan ?cfg ?m 500) = 496 / 1000"
    using a by (simp add: quote_plan_ask clamp_price_def sample_market_def)
  have "max_spread ?m < SPREAD_SAFETY_MARGIN ?cfg"
    using lt by (simp add: sample_market_def)
  with qa qb show ?thesis by (intro conjI)
qed

text \<open>
  Without a bound on the magnitudes the two quotes can be further apart. Neither the margin,
  read from the environment, nor the maximum spread is range-checked: with both \<open>2\<^sup>4\<^sup>4\<close> and
  midpoint \<open>0.501953125\<close> the sum for the bid is exact, the sum for the ask loses the last bits
  of the midpoint, and the bid, \<open>0.502\<close>, is two ticks above the ask, \<open>0.5\<close>.
\<close>

lemma round_half_even_minus: "round_half_even (- x) = - round_half_even x"
proof (cases "x = of_int \<lfloor>x\<rfloor>")
  case True
  then obtain k where "x = of_int k" ..
  then show ?thesis
    using round_half_even_of_int [of "- k"] by simp
next
  case False
  then have f: "\<lfloor>- x\<rfloor> = - \<lfloor>x\<rfloor> - 1"
    by (simp add: floor_eq_iff) linarith
  have r: "0 < x - of_int \<lfloor>x\<rfloor>" using False by (simp add: less_le)
  show ?thesis
    using r by (auto simp: round_half_even_def Let_def f)
qed

lemma binary64_minus: "binary64 (- x) = - binary64 x"
  by (simp add: binary64_def Let_def round_half_even_minus)

lemma far_bid_sub: "float_sub (257 / 512) (2 ^ 44) = 257 / 512 - 2 ^ 44"
proof -
  have "binary64 (2 ^ 44 - 257 / 512) = 2 ^ 44 - 257 / 512"
    using binary64_near [of "2 ^ 44 - 257 / 512" 9 "2 ^ 53 - 257"] by simp
  with binary64_minus [of "2 ^ 44 - 257 / 512"] show ?thesis
    by (simp add: float_sub_def)
qed

lemma far_bid_add: "float_add (257 / 512 - 2 ^ 44) (2 ^ 44) = 257 / 512"
  unfolding float_add_def
  using binary64_near [of "257 / 512" 53 "257 * 2 ^ 44"] by simp

lemma far_ask_add: "float_add (257 / 512) (2 ^ 44) = 2 ^ 44 + 1 / 2"
  unfolding float_add_def
  using binary64_tie [of "257 / 512 + 2 ^ 44" 8 "2 ^ 52 + 128"] by simp

lemma far_ask_sub: "float_sub (2 ^ 44 + 1 / 2) (2 ^ 44) = 1 / 2"
  unfolding float_sub_def
  using binary64_near [of "1 / 2" 53 "2 ^ 52"] by simp

lemma far_round: "py_round (257 / 512) 3 = 502 / 1000" "py_round (1 / 2) 3 = 500 / 1000"
  using py_round_near [of "257 / 512" 502] py_round_near [of "1 / 2" 500] by simp_all

lemma quote_far_example:
  "bid_price (quote_plan (default_config\<lparr>SPREAD_SAFETY_MARGIN := 2 ^ 44\<rparr>)
      (sample_market ''far'' 30 2 (2 ^ 44) (257 / 512) 10 (1 / 100)) 500) = 502 / 1000 \<and>
   ask_price (quote_plan (default_config\<lparr>SPREAD_SAFETY_MARGIN := 2 ^ 44\<rparr>)
      (sample_market ''far'' 30 2 (2 ^ 44) (257 / 512) 10 (1 / 100)) 500) = 500 / 1000"
proof -
  have m: "midpoint (sample_market ''far'' 30 2 (2 ^ 44) (257 / 512) 10 (1 / 100)) = 257 / 512"
      "max_spread (sample_market ''far'' 30 2 (2 ^ 44) (257 / 512) 10 (1 / 100)) = 2 ^ 44"
    by (simp_all only: sample_market_def RewardMarket.simps)
  have g: "SPREAD_SAFETY_MARGIN (default_config\<lparr>SPREAD_SAFETY_MARGIN := 2 ^ 44\<rparr>) = 2 ^ 44"
    by simp
  have c: "clamp_price (502 / 1000) = 502 / 1000" "clamp_price (500 / 1000) = 500 / 1000"
    by (rule clamp_price_mid; simp)+
  have "bid_price (quote_plan (default_config\<lparr>SPREAD_SAFETY_MARGIN := 2 ^ 44\<rparr>)
      (sample_market ''far'' 30 2 (2 ^ 44) (257 / 512) 10 (1 / 100)) 500) = 502 / 1000"
    by (simp only: quote_plan_bid m g far_bid_sub far_bid_add far_round c)
  moreover have "ask_price (quote_plan (default_config\<lparr>SPREAD_SAFETY_MARGIN := 2 ^ 44\<rparr>)
      (sample_market ''far'' 30 2 (2 ^ 44) (257 / 512) 10 (1 / 100)) 500) = 500 / 1000"
    by (simp only: quote_plan_ask m g far_ask_add far_ask_sub far_round c)
  ultimately show ?thesis by (rule conjI)
qed

text \<open>
  C10, as stated, fails: with midpoint \<^verbatim>\<open>0.0135\<close> and both the maximum spread and the margin
  \<^verbatim>\<open>0.005\<close>, so that the spread is not below the margin, the sum for the bid is the double
  \<open>0.013500000000000002\<close> and the sum for the ask the double \<open>0.013499999999999998\<close>: the bid is
  \<open>0.014\<close> and the ask \<open>0.013\<close>.
\<close>

theorem quotes_cross_at_spread_equal_margin_counterexample:
  "SPREAD_SAFETY_MARGIN (default_config\<lparr>SPREAD_SAFETY_MARGIN := binary64 (5 / 1000)\<rparr>)
     \<le> max_spread (sample_market ''tight'' 30 2 (binary64 (5 / 1000)) (binary64 (135 / 10000))
          10 (1 / 100)) \<and>
   bid_price (quote_plan (default_config\<lparr>SPREAD_SAFETY_MARGIN := binary64 (5 / 1000)\<rparr>)
      (sample_market ''tight'' 30 2 (binary64 (5 / 1000)) (binary64 (135 / 10000)) 10 (1 / 100))
      500) = 14 / 1000 \<and>
   ask_price (quote_plan (default_config\<lparr>SPREAD_SAFETY_MARGIN := binary64 (5 / 1000)\<rparr>)
      (sample_market ''tight'' 30 2 (binary64 (5 / 1000)) (binary64 (135 / 10000)) 10 (1 / 100))
      500) = 13 / 1000 \<and>
   ask_price (quote_plan (default_config\<lparr>SPREAD_SAFETY_MARGIN := binary64 (5 / 1000)\<rparr>)
      (sample_market ''tight'' 30 2 (binary64 (5 / 1000)) (binary64 (135 / 10000)) 10 (1 / 100))
      500)
    < bid_price (quote_plan (default_config\<lparr>SPREAD_SAFETY_MARGIN := binary64 (5 / 1000)\<rparr>)
      (sample_market ''tight'' 30 2 (binary64 (5 / 1000)) (binary64 (135 / 10000)) 10 (1 / 100))
      500)"
proof -
  have "SPREAD_SAFETY_MARGIN (default_config\<lparr>SPREAD_SAFETY_MARGIN := binary64 (5 / 1000)\<rparr>)
     \<le> max_spread (sample_market ''tight'' 30 2 (binary64 (5 / 1000)) (binary64 (135 / 10000))
          10 (1 / 100))"
    by (simp add: sample_market_def)
  with quote_tight_example show ?thesis by simp
qed

text \<open>
  C10, amended. For a market whose midpoint and maximum spread, like the margin, are at most
  \<open>1\<close> in magnitude, and whose maximum spread is at least the margin, the bid exceeds the ask
  by at most one tick, \<open>0.001\<close>; and when the maximum spread exceeds the margin by at least
  \<open>10\<^sup>-\<^sup>1\<^sup>5\<close> the bid is not above the ask. With maximum spread \<open>0.001\<close>, the default margin
  \<open>0.005\<close> and midpoint \<open>0.5\<close> the quotes cross: the bid is \<open>0.504\<close> and the ask \<open>0.496\<close>. The
  bound of one tick is attained at the input above, and the bound on the magnitudes cannot be
  dropped, as the market with maximum spread \<open>2\<^sup>4\<^sup>4\<close> shows.
\<close>

theorem quotes_cross_by_at_most_one_tick:
  assumes "\<bar>midpoint m\<bar> \<le> 1" and "\<bar>max_spread m\<bar> \<le> 1" and "\<bar>SPREAD_SAFETY_MARGIN cfg\<bar> \<le> 1"
    and "SPREAD_SAFETY_MARGIN cfg \<le> max_spread m"
  shows "bid_price (quote_plan cfg m sz) \<le> ask_price (quote_plan cfg m sz) + 1 / 1000 \<and>
    (SPREAD_SAFETY_MARGIN cfg + 1 / 10 ^ 15 \<le> max_spread m \<longrightarrow>
       bid_price (quote_plan cfg m sz) \<le> ask_price (quote_plan cfg m sz)) \<and>
    max_spread (sample_market ''thin'' 30 2 (binary64 (1 / 1000)) (1 / 2) 10 (1 / 100))
      < SPREAD_SAFETY_MARGIN (default_config\<lparr>SPREAD_SAFETY_MARGIN := binary64 (5 / 1000)\<rparr>) \<and>
    ask_price (quote_plan (default_config\<lparr>SPREAD_SAFETY_MARGIN := binary64 (5 / 1000)\<rparr>)
      (sample_market ''thin'' 30 2 (binary64 (1 / 1000)) (1 / 2) 10 (1 / 100)) 500) = 496 / 1000 \<and>
    bid_price (quote_plan (default_config\<lparr>SPREAD_SAFETY_MARGIN := binary64 (5 / 1000)\<rparr>)
      (sample_market ''thin'' 30 2 (binary64 (1 / 1000)) (1 / 2) 10 (1 / 100)) 500) = 504 / 1000"
proof -
  have 1: "bid_price (quote_plan cfg m sz) \<le> ask_price (quote_plan cfg m sz) + 1 / 1000"
    using assms by (rule quote_within_tick)
  have 2: "SPREAD_SAFETY_MARGIN cfg + 1 / 10 ^ 15 \<le> max_spread m \<longrightarrow>
       bid_price (quote_plan cfg m sz) \<le> ask_price (quote_plan cfg m sz)"
    using assms(1-3) by (intro impI quote_not_crossed)
  from 1 2 quote_crossed_example show ?thesis by (intro conjI) simp_all
qed

text \<open>
  A market with midpoint \<open>0.5\<close> and maximum spread \<open>0.10\<close> under the default margin: the bid,
  \<open>0.405\<close>, is below the ask, \<open>0.595\<close>.
\<close>

theorem quotes_cross_by_at_most_one_tick_witness:
  "\<bar>midpoint (sample_market ''wide'' 30 2 (binary64 (1 / 10)) (1 / 2) 10 (1 / 100))\<bar> \<le> 1 \<and>
   \<bar>max_spread (sample_market ''wide'' 30 2 (binary64 (1 / 10)) (1 / 2) 10 (1 / 100))\<bar> \<le> 1 \<and>
   \<bar>SPREAD_SAFETY_MARGIN (default_config\<lparr>SPREAD_SAFETY_MARGIN := binary64 (5 / 1000)\<rparr>)\<bar> \<le> 1 \<and>
   SPREAD_SAFETY_MARGIN (default_config\<lparr>SPREAD_SAFETY_MARGIN := binary64 (5 / 1000)\<rparr>)
       + 1 / 10 ^ 15
     \<le> max_spread (sample_market ''wide'' 30 2 (binary64 (1 / 10)) (1 / 2) 10 (1 / 100)) \<and>
   bid_price (quote_plan (default_config\<lparr>SPREAD_SAFETY_MARGIN := binary64 (5 / 1000)\<rparr>)
      (sample_market ''wide'' 30 2 (binary64 (1 / 10)) (1 / 2) 10 (1 / 100)) 500)
    \<le> ask_price (quote_plan (default_config\<lparr>SPREAD_SAFETY_MARGIN := binary64 (5 / 1000)\<rparr>)
      (sample_market ''wide'' 30 2 (binary64 (1 / 10)) (1 / 2) 10 (1 / 100)) 500)"
proof -
  let ?m = "sample_market ''wide'' 30 2 (binary64 (1 / 10)) (1 / 2) 10 (1 / 100)"
  let ?cfg = "default_config\<lparr>SPREAD_SAFETY_MARGIN := binary64 (5 / 1000)\<rparr>"
  note d = double_tenth double_margin
  have h1: "\<bar>midpoint ?m\<bar> \<le> 1" by (simp add: sample_market_def)
  have h2: "\<bar>max_spread ?m\<bar> \<le> 1"
    using d unfolding abs_le_iff by (simp add: sample_market_def)
  have h3: "\<bar>SPREAD_SAFETY_MARGIN ?cfg\<bar> \<le> 1"
    using d unfolding abs_le_iff by simp
  have h5: "SPREAD_SAFETY_MARGIN ?cfg + 1 / 10 ^ 15 \<le> max_spread ?m"
    using d unfolding abs_le_iff by (simp add: sample_market_def)
  have "(0 :: real) \<le> 1 / 10 ^ 15" by simp
  with h5 have h4: "SPREAD_SAFETY_MARGIN ?cfg \<le> max_spread ?m" by linarith
  from quotes_cross_by_at_most_one_tick [OF h1 h2 h3 h4, of 500] h1 h2 h3 h5
  show ?thesis by blast
qed

subsection \<open>Fill-risk monitor\<close>






subsection \<open>Cancellation on shutdown\<close>

lemma cancel_order_recording:
  "\<exists>c1. cancel_order (recording cl) (c, tr) s = (Inr (), (c1, tr @ [Cancel s]))"
proof (cases "cancel cl c s")
  case (Pair r c1)
  then show ?thesis
    by (cases r) (simp_all add: cancel_order_def recording_def)
qed

lemma cancel_if_set_recording:
  "\<exists>c1. cancel_if_set (recording cl) (c, tr) oid =
     (Inr (), (c1, tr @ map Cancel
        (case oid of None \<Rightarrow> [] | Some s \<Rightarrow> if s \<noteq> [] then [s] else [])))"
proof (cases oid)
  case None
  then show ?thesis by (simp add: cancel_if_set_def)
next
  case (Some s)
  show ?thesis
  proof (cases "s = []")
    case True
    with Some show ?thesis by (simp add: cancel_if_set_def)
  next
    case False
    from cancel_order_recording [of cl c tr s] obtain c1 where
      "cancel_order (recording cl) (c, tr) s = (Inr (), (c1, tr @ [Cancel s]))" ..
    with Some False show ?thesis by (simp add: cancel_if_set_def)
  qed
qed

lemma cancel_positions_recording:
  "\<exists>c1. cancel_positions (recording cl) (c, tr) positions =
     (Inr (), (c1, tr @ map Cancel (concat (map live_handles positions))))"
proof (induction positions arbitrary: c tr)
  case Nil
  show ?case by simp
next
  case (Cons pos rest)
  let ?hy = "case order_id_yes pos of None \<Rightarrow> [] | Some s \<Rightarrow> if s \<noteq> [] then [s] else []"
  let ?hn = "case order_id_no pos of None \<Rightarrow> [] | Some s \<Rightarrow> if s \<noteq> [] then [s] else []"
  from cancel_if_set_recording [of cl c tr "order_id_yes pos"] obtain c1 where
    s1: "cancel_if_set (recording cl) (c, tr) (order_id_yes pos) =
      (Inr (), (c1, tr @ map Cancel ?hy))" ..
  from cancel_if_set_recording [of cl c1 "tr @ map Cancel ?hy" "order_id_no pos"] obtain c2 where
    s2: "cancel_if_set (recording cl) (c1, tr @ map Cancel ?hy) (order_id_no pos) =
      (Inr (), (c2, (tr @ map Cancel ?hy) @ map Cancel ?hn))" ..
  from Cons.IH [of c2 "(tr @ map Cancel ?hy) @ map Cancel ?hn"] obtain c3 where
    s3: "cancel_positions (recording cl) (c2, (tr @ map Cancel ?hy) @ map Cancel ?hn) rest =
      (Inr (), (c3, ((tr @ map Cancel ?hy) @ map Cancel ?hn)
          @ map Cancel (concat (map live_handles rest))))" ..
  have "cancel_positions (recording cl) (c, tr) (pos # rest) =
      (Inr (), (c3, ((tr @ map Cancel ?hy) @ map Cancel ?hn)
          @ map Cancel (concat (map live_handles rest))))"
    by (simp only: cancel_positions.simps s1 s2 s3 prod.case sum.case)
  moreover have "((tr @ map Cancel ?hy) @ map Cancel ?hn)
          @ map Cancel (concat (map live_handles rest))
      = tr @ map Cancel (concat (map live_handles (pos # rest)))"
    by (simp add: live_handles_def)
  ultimately show ?case by (intro exI [of _ c3]) simp
qed

lemma length_live_handles: "length (live_handles pos) \<le> 2"
  by (simp add: live_handles_def split: option.splits)

lemma length_concat_live_handles:
  "length (concat (map live_handles positions)) \<le> 2 * length positions"
proof (induction positions)
  case Nil
  show ?case by simp
next
  case (Cons pos rest)
  with length_live_handles [of pos] show ?case by simp
qed

text \<open>
  C4. Whatever the client does on each call, failing or not, the shutdown sequence calls
  \<^verbatim>\<open>cancel\<close> once for every order handle that is set (neither \<^verbatim>\<open>None\<close> nor empty) of
  every position, in order, and then exits; a failed cancellation does not stop the
  remaining ones. That is at most two calls per position. The log of the recording client
  after the run is the log before it followed by exactly these calls.
\<close>

theorem shutdown_attempts_every_handle:
  "(\<exists>c1. handle_signal (recording cl) (c, tr) positions =
      Exited 0 (c1, tr @ map Cancel (concat (map live_handles positions)))) \<and>
   length (concat (map live_handles positions)) \<le> 2 * length positions"
proof -
  from cancel_positions_recording [of cl c tr positions] obtain c1 where
    "cancel_positions (recording cl) (c, tr) positions =
     (Inr (), (c1, tr @ map Cancel (concat (map live_handles positions))))" ..
  then have "handle_signal (recording cl) (c, tr) positions =
      Exited 0 (c1, tr @ map Cancel (concat (map live_handles positions)))"
    by (simp add: handle_signal_def)
  then have "\<exists>c1. handle_signal (recording cl) (c, tr) positions =
      Exited 0 (c1, tr @ map Cancel (concat (map live_handles positions)))" ..
  then show ?thesis using length_concat_live_handles [of positions] by (rule conjI)
qed

text \<open>
  Three positions with three handles set between them, on a client whose every
  cancellation fails: all three are attempted.
\<close>

theorem shutdown_attempts_every_handle_witness:
  "handle_signal (recording failing_client) ((), [])
     [sample_position (Some ''y1'') (Some ''n1'') (4 / 10) (6 / 10),
      sample_position None (Some ''n2'') (4 / 10) (6 / 10),
      sample_position (Some []) None (4 / 10) (6 / 10)]
   = Exited 0 ((), [Cancel ''y1'', Cancel ''n1'', Cancel ''n2''])"
proof -
  let ?ps = "[sample_position (Some ''y1'') (Some ''n1'') (4 / 10) (6 / 10),
      sample_position None (Some ''n2'') (4 / 10) (6 / 10),
      sample_position (Some []) None (4 / 10) (6 / 10)]"
  have h: "concat (map live_handles ?ps) = [''y1'', ''n1'', ''n2'']"
    by (simp add: live_handles_def sample_position_def)
  from shutdown_attempts_every_handle [of failing_client "()" "[]" ?ps]
  have "\<exists>c1. handle_signal (recording failing_client) ((), []) ?ps =
      Exited 0 (c1, [] @ map Cancel (concat (map live_handles ?ps)))" ..
  then show ?thesis unfolding h by simp
qed

subsection \<open>Normalizer and scorer\<close>

lemma bind_err_Inr_iff: "bind_err m f = Inr y \<longleftrightarrow> (\<exists>x. m = Inr x \<and> f x = Inr y)"
  by (cases m) (simp_all add: bind_err_def)

lemma parse_days_nonneg: "0 \<le> parse_days lib ed"
  by (simp add: parse_days_def split: json.splits option.splits)

lemma parse_market_try_SomeD:
  assumes "parse_market_try lib raw event = Inr (Some m)"
  shows "\<exists>d tyes tno ed rewards_daily max_sp min_sz yes_price no_price volume liq bb0 ba0.
           raw = JDict d \<and>
           float_or0 lib (dict_get d ''bestBid'' (JInt 0)) = Inr bb0 \<and>
           float_or0 lib (dict_get d ''bestAsk'' (JInt 0)) = Inr ba0 \<and>
           price_at lib (parse_prices lib d) 0 = Inr yes_price \<and>
           m = build_market d tyes tno ed (parse_days lib ed) rewards_daily max_sp min_sz
                 yes_price no_price volume liq bb0 ba0"
proof (cases raw)
  case (JDict d)
  with assms show ?thesis
    unfolding parse_market_try_def
    by (simp add: Let_def bind_err_Inr_iff split: if_splits prod.splits) blast
qed (use assms in \<open>simp_all add: parse_market_try_def\<close>)

lemma parse_market_SomeD:
  assumes "parse_market lib raw event = Inr (Some m)"
  shows "\<exists>d tyes tno ed rewards_daily max_sp min_sz yes_price no_price volume liq bb0 ba0.
           raw = JDict d \<and>
           float_or0 lib (dict_get d ''bestBid'' (JInt 0)) = Inr bb0 \<and>
           float_or0 lib (dict_get d ''bestAsk'' (JInt 0)) = Inr ba0 \<and>
           price_at lib (parse_prices lib d) 0 = Inr yes_price \<and>
           m = build_market d tyes tno ed (parse_days lib ed) rewards_daily max_sp min_sz
                 yes_price no_price volume liq bb0 ba0"
proof -
  from assms have "parse_market_try lib raw event = Inr (Some m)"
    by (simp add: parse_market_def split: sum.splits)
  then show ?thesis by (rule parse_market_try_SomeD)
qed

lemma build_market_risk:
  "risk_score (build_market d tyes tno ed days rd ms mz yp np vol liq bb0 ba0) =
     min 100 ((max 0 (50 - days) * 2 + (1 - \<bar>yp - 1 / 2\<bar> * 2) * 50 + min 50 (vol / 1000 * 10)) / 3)"
  by (simp add: build_market_def Let_def)

lemma build_market_inputs:
  "days_to_resolution (build_market d tyes tno ed days rd ms mz yp np vol liq bb0 ba0) = days"
  "midpoint (build_market d tyes tno ed days rd ms mz yp np vol liq bb0 ba0) = yp"
  "volume_24h (build_market d tyes tno ed days rd ms mz yp np vol liq bb0 ba0) = vol"
  "liquidity (build_market d tyes tno ed days rd ms mz yp np vol liq bb0 ba0) = liq"
  "daily_reward (build_market d tyes tno ed days rd ms mz yp np vol liq bb0 ba0) = rd"
  by (simp_all add: build_market_def Let_def)

lemma build_market_competition:
  "competition_score (build_market d tyes tno ed days rd ms mz yp np vol liq bb0 ba0) =
     (if rd > 0 then min 100 ((liq / (rd * 100)) * 10) else 100)"
  by (simp add: build_market_def Let_def)


text \<open>
  C5. For every market the normalizer returns, the risk score is
  \<open>min 100 ((time + price + volume) / 3)\<close> with \<open>time = max 0 (50 - days) * 2\<close>,
  \<open>price = (1 - |midpoint - 0.5| * 2) * 50\<close> and \<open>volume = min 50 (volume24h / 1000 * 10)\<close>, over
  the market's own fields. The time term lies in \<open>[0, 100]\<close> and the other two are at most
  \<open>50\<close>, so the mean never exceeds \<open>100\<close> and the outer bound on the sum leaves it unchanged.
\<close>

theorem risk_score_formula:
  assumes "parse_market lib raw event = Inr (Some m)"
  shows "risk_score m =
      min 100 ((max 0 (50 - days_to_resolution m) * 2
                + (1 - \<bar>midpoint m - 1 / 2\<bar> * 2) * 50
                + min 50 (volume_24h m / 1000 * 10)) / 3) \<and>
    0 \<le> max 0 (50 - days_to_resolution m) * 2 \<and>
    max 0 (50 - days_to_resolution m) * 2 \<le> 100 \<and>
    (1 - \<bar>midpoint m - 1 / 2\<bar> * 2) * 50 \<le> 50 \<and>
    min 50 (volume_24h m / 1000 * 10) \<le> 50 \<and>
    risk_score m =
      (max 0 (50 - days_to_resolution m) * 2
       + (1 - \<bar>midpoint m - 1 / 2\<bar> * 2) * 50
       + min 50 (volume_24h m / 1000 * 10)) / 3"
proof -
  from parse_market_SomeD [OF assms] obtain d tyes tno ed rd ms mz yp np vol liq bb0 ba0
    where m: "m = build_market d tyes tno ed (parse_days lib ed) rd ms mz yp np vol liq bb0 ba0"
    by blast
  have days: "0 \<le> days_to_resolution m"
    by (simp add: m build_market_inputs parse_days_nonneg)
  have f: "risk_score m =
      min 100 ((max 0 (50 - days_to_resolution m) * 2
                + (1 - \<bar>midpoint m - 1 / 2\<bar> * 2) * 50
                + min 50 (volume_24h m / 1000 * 10)) / 3)"
    by (simp only: m build_market_risk build_market_inputs)
  define t where "t = max 0 (50 - days_to_resolution m) * 2"
  define p where "p = (1 - \<bar>midpoint m - 1 / 2\<bar> * 2) * 50"
  define v where "v = min 50 (volume_24h m / 1000 * 10)"
  have b: "0 \<le> t" "t \<le> 100" "p \<le> 50" "v \<le> 50"
    using days by (simp_all add: t_def p_def v_def max_def)
  then have "t + p + v \<le> 300" by linarith
  then have "(t + p + v) / 3 \<le> 100" by simp
  then have "min 100 ((t + p + v) / 3) = (t + p + v) / 3" by (rule min_absorb2)
  with f have g: "risk_score m = (t + p + v) / 3"
    by (simp only: t_def p_def v_def)
  from f b g show ?thesis unfolding t_def p_def v_def by blast
qed


lemma map_of_sample_fields:
  "map_of (sample_fields tokens prices liq bid ask) k =
     (if k = ''clobTokenIds'' then Some tokens
      else if k = ''question'' then Some (JStr ''Q'')
      else if k = ''rewardsMaxSpread'' then Some (JFloat (35 / 10))
      else if k = ''rewardsMinSize'' then Some (JInt 50)
      else if k = ''rewards'' then Some (JList [JDict [(''rewardsDailyRate'', JInt 5)]])
      else if k = ''outcomePrices'' then Some prices
      else if k = ''volume24hr'' then Some (JInt 2000)
      else if k = ''liquidity'' then Some liq
      else if k = ''bestBid'' then Some bid
      else if k = ''bestAsk'' then Some ask
      else None)"
  by (simp add: sample_fields_def)

lemmas parse_defs = parse_market_def parse_market_try_def sample_raw_def two_tokens_def
  sample_lib_def dict_get_def dict_get_none_def py_or_def bind_err_def float_or0_def
  parse_spread_size_def parse_rewards_daily_def parse_end_date_def parse_days_def
  parse_prices_def price_at_def Let_def map_of_sample_fields

lemma parse_sample_synthetic:
  "parse_market sample_lib
     (sample_raw two_tokens (JList [JFloat (6 / 10), JFloat (4 / 10)]) (JInt 1000) JNull JNull) []
   = Inr (Some (build_market
       (sample_fields two_tokens (JList [JFloat (6 / 10), JFloat (4 / 10)]) (JInt 1000) JNull JNull)
       (JStr ''tokY'') (JStr ''tokN'') JNull 365 5 (35 / 1000) 50 (6 / 10) (4 / 10)
       2000 1000 0 0))"
  by (simp add: parse_defs)

text \<open>
  A record with prices \<open>0.6\<close> and \<open>0.4\<close>, no end date and a 24-hour volume of \<open>2000\<close>: the
  terms are \<open>0\<close>, \<open>40\<close> and \<open>20\<close>.
\<close>

theorem risk_score_formula_witness:
  "parse_market sample_lib
     (sample_raw two_tokens (JList [JFloat (6 / 10), JFloat (4 / 10)]) (JInt 1000) JNull JNull) []
   = Inr (Some (build_market
       (sample_fields two_tokens (JList [JFloat (6 / 10), JFloat (4 / 10)]) (JInt 1000) JNull JNull)
       (JStr ''tokY'') (JStr ''tokN'') JNull 365 5 (35 / 1000) 50 (6 / 10) (4 / 10)
       2000 1000 0 0)) \<and>
   risk_score (build_market
       (sample_fields two_tokens (JList [JFloat (6 / 10), JFloat (4 / 10)]) (JInt 1000) JNull JNull)
       (JStr ''tokY'') (JStr ''tokN'') JNull 365 5 (35 / 1000) 50 (6 / 10) (4 / 10)
       2000 1000 0 0) = (0 + 40 + 20) / 3"
  using parse_sample_synthetic risk_score_formula [OF parse_sample_synthetic]
  by (simp add: build_market_inputs)


lemma parse_sample_out_of_range:
  "parse_market sample_lib
     (sample_raw two_tokens (JList [JFloat 3, JFloat (4 / 10)]) (JInt (- 1000)) JNull JNull) []
   = Inr (Some (build_market
       (sample_fields two_tokens (JList [JFloat 3, JFloat (4 / 10)]) (JInt (- 1000)) JNull JNull)
       (JStr ''tokY'') (JStr ''tokN'') JNull 365 5 (35 / 1000) 50 3 (4 / 10)
       2000 (- 1000) 0 0))"
  by (simp add: parse_defs)

text \<open>
  C6. The data class documents both scores as \<open>0-100\<close> (lines 85 and 86), and the normalizer
  clamps each of them from above with \<^verbatim>\<open>min(100, ...)\<close>, but it has no clamp from below and
  checks no input range: a record with liquidity \<open>-1000\<close> and first outcome price \<open>3\<close> is
  normalized to a market with competition score \<open>-20\<close> and risk score \<open>-60\<close>, outside the
  documented range.
\<close>

theorem scores_below_documented_range:
  "parse_market sample_lib
     (sample_raw two_tokens (JList [JFloat 3, JFloat (4 / 10)]) (JInt (- 1000)) JNull JNull) []
   = Inr (Some (build_market
       (sample_fields two_tokens (JList [JFloat 3, JFloat (4 / 10)]) (JInt (- 1000)) JNull JNull)
       (JStr ''tokY'') (JStr ''tokN'') JNull 365 5 (35 / 1000) 50 3 (4 / 10)
       2000 (- 1000) 0 0)) \<and>
   competition_score (build_market
       (sample_fields two_tokens (JList [JFloat 3, JFloat (4 / 10)]) (JInt (- 1000)) JNull JNull)
       (JStr ''tokY'') (JStr ''tokN'') JNull 365 5 (35 / 1000) 50 3 (4 / 10)
       2000 (- 1000) 0 0) = - 20 \<and>
   risk_score (build_market
       (sample_fields two_tokens (JList [JFloat 3, JFloat (4 / 10)]) (JInt (- 1000)) JNull JNull)
       (JStr ''tokY'') (JStr ''tokN'') JNull 365 5 (35 / 1000) 50 3 (4 / 10)
       2000 (- 1000) 0 0) = - 60"
  using parse_sample_out_of_range
  by (simp add: build_market_competition build_market_risk)

text \<open>
  The bounds the normalizer does enforce. For every market it returns, both scores are at
  most \<open>100\<close>; the competition score is at least \<open>0\<close> when the liquidity is, and the risk score
  is at least \<open>0\<close> when the midpoint lies in \<open>[0, 1]\<close> and the 24-hour volume is not negative.
\<close>

lemma scores_bounded:
  assumes "parse_market lib raw event = Inr (Some m)"
  shows "competition_score m \<le> 100 \<and> risk_score m \<le> 100 \<and>
    (0 \<le> liquidity m \<longrightarrow> 0 \<le> competition_score m) \<and>
    (0 \<le> midpoint m \<and> midpoint m \<le> 1 \<and> 0 \<le> volume_24h m \<longrightarrow> 0 \<le> risk_score m)"
proof -
  from parse_market_SomeD [OF assms] obtain d tyes tno ed rd ms mz yp np vol liq bb0 ba0
    where m: "m = build_market d tyes tno ed (parse_days lib ed) rd ms mz yp np vol liq bb0 ba0"
    by blast
  have c1: "competition_score m \<le> 100"
    by (simp add: m build_market_competition)
  have c2: "0 \<le> liquidity m \<longrightarrow> 0 \<le> competition_score m"
    by (simp add: m build_market_competition build_market_inputs)
  have r1: "risk_score m \<le> 100"
    by (simp add: m build_market_risk)
  have r2: "0 \<le> midpoint m \<and> midpoint m \<le> 1 \<and> 0 \<le> volume_24h m \<longrightarrow> 0 \<le> risk_score m"
  proof
    assume a: "0 \<le> midpoint m \<and> midpoint m \<le> 1 \<and> 0 \<le> volume_24h m"
    define t where "t = max 0 (50 - parse_days lib ed) * 2"
    define p where "p = (1 - \<bar>yp - 1 / 2\<bar> * 2) * 50"
    define v where "v = min 50 (vol / 1000 * 10)"
    from a have "0 \<le> yp" "yp \<le> 1" "0 \<le> vol"
      by (simp_all add: m build_market_inputs)
    then have "0 \<le> t" "0 \<le> p" "0 \<le> v"
      by (simp_all add: t_def p_def v_def abs_if)
    then have "0 \<le> t + p + v" by linarith
    then have "0 \<le> min 100 ((t + p + v) / 3)" by simp
    then show "0 \<le> risk_score m"
      by (simp only: m build_market_risk t_def p_def v_def)
  qed
  from c1 r1 c2 r2 show ?thesis by blast
qed

text \<open>
  The record of the C5 example has liquidity \<open>1000\<close>, midpoint \<open>0.6\<close> and volume \<open>2000\<close>.
\<close>

lemma scores_bounded_example:
  "0 \<le> liquidity (build_market
       (sample_fields two_tokens (JList [JFloat (6 / 10), JFloat (4 / 10)]) (JInt 1000) JNull JNull)
       (JStr ''tokY'') (JStr ''tokN'') JNull 365 5 (35 / 1000) 50 (6 / 10) (4 / 10)
       2000 1000 0 0) \<and>
   0 \<le> competition_score (build_market
       (sample_fields two_tokens (JList [JFloat (6 / 10), JFloat (4 / 10)]) (JInt 1000) JNull JNull)
       (JStr ''tokY'') (JStr ''tokN'') JNull 365 5 (35 / 1000) 50 (6 / 10) (4 / 10)
       2000 1000 0 0) \<and>
   competition_score (build_market
       (sample_fields two_tokens (JList [JFloat (6 / 10), JFloat (4 / 10)]) (JInt 1000) JNull JNull)
       (JStr ''tokY'') (JStr ''tokN'') JNull 365 5 (35 / 1000) 50 (6 / 10) (4 / 10)
       2000 1000 0 0) \<le> 100 \<and>
   0 \<le> risk_score (build_market
       (sample_fields two_tokens (JList [JFloat (6 / 10), JFloat (4 / 10)]) (JInt 1000) JNull JNull)
       (JStr ''tokY'') (JStr ''tokN'') JNull 365 5 (35 / 1000) 50 (6 / 10) (4 / 10)
       2000 1000 0 0) \<and>
   risk_score (build_market
       (sample_fields two_tokens (JList [JFloat (6 / 10), JFloat (4 / 10)]) (JInt 1000) JNull JNull)
       (JStr ''tokY'') (JStr ''tokN'') JNull 365 5 (35 / 1000) 50 (6 / 10) (4 / 10)
       2000 1000 0 0) \<le> 100"
  using scores_bounded [OF parse_sample_synthetic]
  by (simp add: build_market_inputs)






lemma parse_market_total: "\<exists>r. parse_market lib raw event = Inr r"
  by (simp add: parse_market_def split: sum.splits)

lemma parse_market_no_tokens:
  assumes "dict_get_none d ''clobTokenIds'' = JNull \<or>
     (\<exists>xs. dict_get_none d ''clobTokenIds'' = JList xs \<and> length xs < 2)"
  shows "parse_market lib (JDict d) event = Inr None"
  using assms
  by (cases "dict_get_none d ''clobTokenIds''")
     (auto simp: parse_market_def parse_market_try_def bind_err_def Let_def)

text \<open>
  C7. \<^verbatim>\<open>parse_market\<close> never raises: its result is always a returned value. It returns
  \<^verbatim>\<open>None\<close> when the token list is missing (absent or null) or is a list of fewer than two
  elements, and whenever the body of its \<^verbatim>\<open>try\<close> raises. A market it returns is never
  partial: it is the record \<open>build_market\<close> assembles, every field set, after every
  conversion has succeeded.
\<close>

theorem parse_market_absent_never_raises:
  "(\<exists>r. parse_market lib raw event = Inr r) \<and>
   (\<forall>d. raw = JDict d \<and>
        (dict_get_none d ''clobTokenIds'' = JNull \<or>
         (\<exists>xs. dict_get_none d ''clobTokenIds'' = JList xs \<and> length xs < 2))
      \<longrightarrow> parse_market lib raw event = Inr None) \<and>
   (\<forall>e. parse_market_try lib raw event = Inl e \<longrightarrow> parse_market lib raw event = Inr None) \<and>
   (\<forall>m. parse_market lib raw event = Inr (Some m) \<longrightarrow>
      (\<exists>d tyes tno ed rewards_daily max_sp min_sz yes_price no_price volume liq bb0 ba0.
         m = build_market d tyes tno ed (parse_days lib ed) rewards_daily max_sp min_sz
               yes_price no_price volume liq bb0 ba0))"
proof -
  have 1: "\<exists>r. parse_market lib raw event = Inr r" by (rule parse_market_total)
  have 2: "\<forall>d. raw = JDict d \<and>
        (dict_get_none d ''clobTokenIds'' = JNull \<or>
         (\<exists>xs. dict_get_none d ''clobTokenIds'' = JList xs \<and> length xs < 2))
      \<longrightarrow> parse_market lib raw event = Inr None"
    using parse_market_no_tokens by blast
  have 3: "\<forall>e. parse_market_try lib raw event = Inl e \<longrightarrow> parse_market lib raw event = Inr None"
    by (simp add: parse_market_def)
  have 4: "\<forall>m. parse_market lib raw event = Inr (Some m) \<longrightarrow>
      (\<exists>d tyes tno ed rewards_daily max_sp min_sz yes_price no_price volume liq bb0 ba0.
         m = build_market d tyes tno ed (parse_days lib ed) rewards_daily max_sp min_sz
               yes_price no_price volume liq bb0 ba0)"
  proof (intro allI impI)
    fix m assume "parse_market lib raw event = Inr (Some m)"
    from parse_market_SomeD [OF this]
    obtain d tyes tno ed rd ms mz yp np vol liq bb0 ba0 where
      m: "m = build_market d tyes tno ed (parse_days lib ed) rd ms mz yp np vol liq bb0 ba0"
      by blast
    show "\<exists>d tyes tno ed rewards_daily max_sp min_sz yes_price no_price volume liq bb0 ba0.
         m = build_market d tyes tno ed (parse_days lib ed) rewards_daily max_sp min_sz
               yes_price no_price volume liq bb0 ba0"
      by (intro exI) (rule m)
  qed
  from 1 2 3 4 show ?thesis by (intro conjI)
qed


text \<open>
  A record with a null token list, one with a single token, and one whose liquidity is a
  list, on which \<^verbatim>\<open>float\<close> raises \<^verbatim>\<open>TypeError\<close>.
\<close>

theorem parse_market_absent_never_raises_witness:
  "parse_market sample_lib
     (sample_raw JNull (JList [JFloat (6 / 10), JFloat (4 / 10)]) (JInt 1000) JNull JNull) []
     = Inr None \<and>
   parse_market sample_lib
     (sample_raw (JList [JStr ''only'']) (JList [JFloat (6 / 10), JFloat (4 / 10)]) (JInt 1000)
        JNull JNull) []
     = Inr None \<and>
   parse_market_try sample_lib
     (sample_raw two_tokens (JList [JFloat (6 / 10), JFloat (4 / 10)]) (JList [JInt 1])
        JNull JNull) []
     = Inl TypeError \<and>
   parse_market sample_lib
     (sample_raw two_tokens (JList [JFloat (6 / 10), JFloat (4 / 10)]) (JList [JInt 1])
        JNull JNull) []
     = Inr None"
proof -
  let ?P = "JList [JFloat (6 / 10), JFloat (4 / 10)]"
  let ?f1 = "sample_fields JNull ?P (JInt 1000) JNull JNull"
  let ?f2 = "sample_fields (JList [JStr ''only'']) ?P (JInt 1000) JNull JNull"
  let ?r3 = "sample_raw two_tokens ?P (JList [JInt 1]) JNull JNull"
  have h1: "dict_get_none ?f1 ''clobTokenIds'' = JNull"
    by (simp add: dict_get_none_def dict_get_def map_of_sample_fields)
  have h2: "dict_get_none ?f2 ''clobTokenIds'' = JList [JStr ''only''] \<and>
      length [JStr ''only''] < 2"
    by (simp add: dict_get_none_def dict_get_def map_of_sample_fields)
  from parse_market_absent_never_raises [of sample_lib "JDict ?f1" "[]"] h1
  have r1: "parse_market sample_lib (JDict ?f1) [] = Inr None" by blast
  from parse_market_absent_never_raises [of sample_lib "JDict ?f2" "[]"] h2
  have r2: "parse_market sample_lib (JDict ?f2) [] = Inr None" by blast
  have e3: "parse_market_try sample_lib ?r3 [] = Inl TypeError"
    by (simp add: parse_defs)
  from parse_market_absent_never_raises [of sample_lib ?r3 "[]"] e3
  have r3: "parse_market sample_lib ?r3 [] = Inr None" by blast
  from r1 r2 e3 r3 show ?thesis by (simp only: sample_raw_def) 
qed

subsection \<open>Orchestrator\<close>









end
